theory Spec2Isabelle
  imports
    Main
    "HOL-Library.Char_ord"
    "HOL-Library.List_Lexorder"
    "HOL-Library.Sublist"
    "HOL-Library.Multiset"
begin

section \<open>The command dispatcher of tach (src/tach/cli.py)\<close>

text \<open>
  The dispatcher parses the command line, calls the engine (\<open>check\<close>,
  \<open>prune_dependency_constraints\<close>, \<open>clean_project\<close>, ...), prints and leaves the process
  with an exit status. The engine's modules are not part of the file; every call into
  them is a field of the record \<open>env\<close> below, and the dispatcher is a function of that
  record. What the dispatcher does to the outside world is recorded as a list of events, in
  program order.

  Strings are byte lists (UTF-8). They are compared as Python compares \<open>str\<close>: the
  lexicographic order of bytes in UTF-8 is the order of code points.
\<close>

subsection \<open>Python values and exceptions\<close>

text \<open>
  What a call raises. \<open>Exception msg\<close> is an instance of Python's \<open>Exception\<close> with
  \<open>str(e) = msg\<close>: it is what \<open>except Exception\<close> catches. \<open>SystemExit n\<close> is raised by
  \<open>sys.exit(n)\<close>; it is not an \<open>Exception\<close> and passes through \<open>except Exception\<close>.
\<close>

datatype raised = Exception string | SystemExit int

text \<open>How a function that may return ends: \<open>Returned\<close> or \<open>Raised\<close>.\<close>

datatype outcome = Returned | Raised raised

text \<open>The exit status of the process when \<open>main\<close> ends that way.\<close>

fun exit_status :: "outcome \<Rightarrow> int" where
  "exit_status Returned = 0"
| "exit_status (Raised (SystemExit n)) = n"
| "exit_status (Raised (Exception msg)) = 1"

text \<open>
  \<open>str.lower()\<close> on the ASCII letters; every other byte is kept. Python also lowers
  letters outside ASCII; the dispatcher only compares the result with the ASCII words
  \<open>jetbrains\<close>, \<open>vscode\<close>, \<open>y\<close> and \<open>yes\<close>, and no letter outside ASCII is lowered
  to one of their letters.
\<close>

definition lower_char :: "char \<Rightarrow> char" where
  "lower_char c =
     (if CHR ''A'' \<le> c \<and> c \<le> CHR ''Z'' then char_of (of_char c + (32::nat)) else c)"

definition lower :: "string \<Rightarrow> string" where
  "lower s = map lower_char s"

text \<open>\<open>sep.join(xs)\<close>.\<close>

fun join :: "string \<Rightarrow> string list \<Rightarrow> string" where
  "join sep [] = []"
| "join sep [x] = x"
| "join sep (x # y # ys) = x @ sep @ join sep (y # ys)"

text \<open>\<open>s.split(sep)\<close> for a separator of one character, as \<open>main\<close> uses it.\<close>

fun split :: "char \<Rightarrow> string \<Rightarrow> string list" where
  "split sep [] = [[]]"
| "split sep (c # cs) =
     (if c = sep then [] # split sep cs
      else (case split sep cs of
              [] \<Rightarrow> [[c]]
            | w # ws \<Rightarrow> (c # w) # ws))"

text \<open>\<open>str(n)\<close> for an integer, in decimal.\<close>

definition digit_char :: "nat \<Rightarrow> char" where
  "digit_char d = char_of (48 + d)"

fun str_nat :: "nat \<Rightarrow> string" where
  "str_nat n = (if n < 10 then [digit_char n] else str_nat (n div 10) @ [digit_char (n mod 10)])"

declare str_nat.simps [simp del]

definition str_int :: "int \<Rightarrow> string" where
  "str_int i = (if i < 0 then CHR ''-'' # str_nat (nat (- i)) else str_nat (nat i))"

subsection \<open>The engine's data, as the dispatcher reads it\<close>

text \<open>
  \<open>BoundaryError\<close> (tach.check): the dispatcher reads \<open>file_path\<close>, \<open>line_number\<close>,
  \<open>import_mod_path\<close> and, of \<open>error_info\<close>, \<open>exception_message\<close>, \<open>is_tag_error\<close>,
  \<open>source_tags\<close> and \<open>invalid_tags\<close>. The only use of \<open>exception_message\<close> is
  its truth value and its text; \<open>None\<close> and the empty string are both false, so the field
  is a string, empty when there is no message.
\<close>

record error_info =
  exception_message :: string
  is_tag_error :: bool
  source_tags :: "string list"
  invalid_tags :: "string list"

record boundary_error =
  file_path :: string
  line_number :: "int option"
  import_mod_path :: string
  error_info :: error_info

text \<open>\<open>TagDependencyRules\<close> (tach.core): \<open>tag\<close> and \<open>depends_on\<close>.\<close>

record tag_dependency_rules =
  tag :: string
  depends_on :: "string list"

text \<open>
  The project configuration (tach.core): the dispatcher reads \<open>exact\<close>, \<open>exclude\<close> and
  \<open>exclude_hidden_paths\<close>; \<open>constraints\<close> stands for the rest of the policy.
\<close>

record project_config =
  exact :: bool
  exclude :: "string list option"
  exclude_hidden_paths :: bool
  constraints :: "tag_dependency_rules list"

text \<open>
  The namespace \<open>argparse\<close> returns for the parser of \<open>build_parser\<close>: the subcommand and
  the arguments of the subparsers. \<open>arg_exclude\<close> is \<open>getattr(args, "exclude", None)\<close>.
\<close>

record namespace =
  command :: "string option"
  arg_exclude :: "string option"
  arg_exact :: bool
  arg_depth :: "int option"
  arg_path :: string
  arg_tags :: "string option"
  arg_target :: string
  arg_prune :: bool
  arg_force :: bool

subsection \<open>The outside world\<close>

text \<open>
  Everything the dispatcher calls and does not define: the process environment
  (\<open>os.environ\<close>, \<open>os.path.abspath\<close>, \<open>input\<close>, \<open>argparse\<close>), the constants of
  tach.colors and tach.constants, Python's \<open>str()\<close> of a list of tags and \<open>repr()\<close> of a
  string, and the engine. A call that may raise returns \<open>Inl\<close> of what it raised.
  \<open>format_other\<close> is the part of \<open>str.format\<close> that \<open>format\<close> below does not spell out.
\<close>

record env =
  TERMINAL_EMULATOR :: string
  TERM_PROGRAM :: string
  abspath :: "string \<Rightarrow> string"
  str_list :: "string list \<Rightarrow> string"
  repr :: "string \<Rightarrow> string"
  format_other :: "string \<Rightarrow> string \<Rightarrow> string + string"
  FAIL :: string
  ENDC :: string
  WARNING :: string
  OKGREEN :: string
  OKCYAN :: string
  TOOL_NAME :: string
  CONFIG_FILE_NAME :: string
  parse_args :: "string list \<Rightarrow> raised + namespace"
  validate_project_config_path :: "raised + unit"
  parse_project_config :: "raised + project_config"
  check :: "project_config \<Rightarrow> string list option \<Rightarrow> bool \<Rightarrow> raised + boundary_error list"
  prune_dependency_constraints :: "project_config \<Rightarrow> string list option \<Rightarrow> raised + project_config"
  find_extra_constraints :: "project_config \<Rightarrow> project_config \<Rightarrow> raised + tag_dependency_rules list"
  find_project_config_root :: "raised + string option"
  input :: "string \<Rightarrow> raised + string"
  clean_project :: "string \<Rightarrow> raised + unit"
  init_project :: "int option \<Rightarrow> string list option \<Rightarrow> raised + string list"
  sync_project :: "bool \<Rightarrow> string list option \<Rightarrow> raised + unit"
  add_packages :: "string set \<Rightarrow> string set option \<Rightarrow> raised + string list"
  install_pre_commit :: "string \<Rightarrow> raised + bool \<times> string"

text \<open>What the dispatcher does, in program order.\<close>

datatype event =
    Print string
  | PrintErr string
  | PrintHelp
  | StartSpinner string
  | StopSpinner
  | CallValidateProjectConfigPath
  | CallParseProjectConfig
  | CallCheck project_config "string list option" bool
  | CallPrune project_config "string list option"
  | CallFindExtraConstraints project_config project_config
  | CallFindProjectConfigRoot
  | CallInput string
  | CallCleanProject string
  | CallInitProject "int option" "string list option"
  | CallSyncProject bool "string list option"
  | CallAddPackages "string set" "string set option"
  | CallInstallPreCommit string

subsection \<open>Formatting\<close>

datatype TerminalEnvironment = UNKNOWN | JETBRAINS | VSCODE

definition detect_environment :: "env \<Rightarrow> TerminalEnvironment" where
  "detect_environment e =
     (if sublist ''jetbrains'' (lower (TERMINAL_EMULATOR e)) then JETBRAINS
      else if sublist ''vscode'' (lower (TERM_PROGRAM e)) then VSCODE
      else UNKNOWN)"

text \<open>The escape character \<open>\033\<close>, the backslash and the cross mark of the messages.\<close>

definition ESC :: string where
  "ESC = [char_of (27::nat)]"

definition BACKSLASH :: string where
  "BACKSLASH = [char_of (92::nat)]"

definition CROSS_MARK :: string where
  "CROSS_MARK = [char_of (226::nat), char_of (157::nat), char_of (140::nat)]"

definition CHECK_MARK :: string where
  "CHECK_MARK = [char_of (226::nat), char_of (156::nat), char_of (133::nat)]"

text \<open>Lines 42-52 of \<open>create_clickable_link\<close>: the target of the link.\<close>

definition link :: "env \<Rightarrow> string \<Rightarrow> int option \<Rightarrow> string" where
  "link e file_path' line =
     (let terminal_env = detect_environment e;
          abs_path = abspath e file_path'
      in if terminal_env = JETBRAINS then
           (case line of
              Some l \<Rightarrow> ''file://'' @ abs_path @ '':'' @ str_int l
            | None \<Rightarrow> ''file://'' @ abs_path)
         else if terminal_env = VSCODE then
           (case line of
              Some l \<Rightarrow> ''vscode://file/'' @ abs_path @ '':'' @ str_int l
            | None \<Rightarrow> ''vscode://file/'' @ abs_path)
         else ''file://'' @ abs_path)"

text \<open>
  Lines 55-59: the text of the link. \<open>if line\<close> is false for \<open>None\<close> and for \<open>0\<close>.
\<close>

definition display_file_path :: "env \<Rightarrow> string \<Rightarrow> int option \<Rightarrow> string" where
  "display_file_path e file_path' line =
     (case line of
        Some l \<Rightarrow>
          (if l \<noteq> 0 \<and> detect_environment e \<noteq> UNKNOWN
           then file_path' @ ''[L'' @ str_int l @ '']''
           else file_path')
      | None \<Rightarrow> file_path')"

definition create_clickable_link :: "env \<Rightarrow> string \<Rightarrow> int option \<Rightarrow> string" where
  "create_clickable_link e file_path' line =
     ESC @ '']8;;'' @ link e file_path' line @ ESC @ BACKSLASH
       @ display_file_path e file_path' line @ ESC @ '']8;;'' @ ESC @ BACKSLASH"

text \<open>
  Line 66: the f-string puts the location and the colours into the text and leaves
  \<open>{message}\<close> in it; the result is a format string.
\<close>

definition error_template :: "env \<Rightarrow> string \<Rightarrow> string" where
  "error_template e error_location =
     CROSS_MARK @ '' '' @ FAIL e @ error_location @ ENDC e @ WARNING e @ '': {message} '' @ ENDC e"

text \<open>
  \<open>template.format(message=m)\<close>, lines 69, 71 and 78. \<open>str.format\<close> reads the whole
  template again, the location included: \<open>{{\<close> and \<open>}}\<close> stand for one brace,
  \<open>{message}\<close> is replaced by the message, a field with another name raises \<open>KeyError\<close>,
  \<open>{}\<close> raises \<open>IndexError\<close> (there is no positional argument) and a brace that opens or
  closes nothing raises \<open>ValueError\<close>. The exception ends the formatting at the first such
  place, from left to right. A field named by digits or with a name that is not ASCII
  (Python reads every decimal digit of Unicode as a number), or with a conversion, a format
  specification, an attribute or an index (the name is followed by one of \<open>! : . [ {\<close>)
  is left to \<open>format_other\<close>, which is given the template from that field on.
\<close>

definition plain_char :: "char \<Rightarrow> bool" where
  "plain_char c = (c \<notin> set ''{}[].!:'')"

definition is_digit :: "char \<Rightarrow> bool" where
  "is_digit c = (CHR ''0'' \<le> c \<and> c \<le> CHR ''9'')"

definition is_ascii :: "char \<Rightarrow> bool" where
  "is_ascii c = (of_char c < (128::nat))"

text \<open>The text written so far, before what formatting the rest of the template gives.\<close>

fun prepend :: "string \<Rightarrow> raised + string \<Rightarrow> raised + string" where
  "prepend s (Inl r) = Inl r"
| "prepend s (Inr t) = Inr (s @ t)"

definition single_close :: string where
  "single_close = ''Single '' @ [CHR 0x27] @ ''}'' @ [CHR 0x27] @ '' encountered in format string''"

definition single_open :: string where
  "single_open = ''Single '' @ [CHR 0x27] @ ''{'' @ [CHR 0x27] @ '' encountered in format string''"

definition expected_close :: string where
  "expected_close = ''expected '' @ [CHR 0x27] @ ''}'' @ [CHR 0x27] @ '' before end of string''"

definition index_out_of_range :: string where
  "index_out_of_range = ''Replacement index 0 out of range for positional args tuple''"

function format :: "env \<Rightarrow> string \<Rightarrow> string \<Rightarrow> raised + string" where
  "format e [] message = Inr []"
| "format e (c # cs) message =
     (if c = CHR ''}'' then
        (case cs of
           [] \<Rightarrow> Inl (Exception single_close)
         | d # ds \<Rightarrow>
             if d = CHR ''}'' then prepend ''}'' (format e ds message)
             else Inl (Exception single_close))
      else if c = CHR ''{'' then
        (case cs of
           [] \<Rightarrow> Inl (Exception single_open)
         | d # ds \<Rightarrow>
             if d = CHR ''{'' then prepend ''{'' (format e ds message)
             else
               (case dropWhile plain_char cs of
                  [] \<Rightarrow> Inl (Exception expected_close)
                | r # rs \<Rightarrow>
                    if r = CHR ''}'' then
                      (let name = takeWhile plain_char cs
                       in if name = ''message'' then prepend message (format e rs message)
                          else if name = [] then Inl (Exception index_out_of_range)
                          else if list_all is_digit name \<or> \<not> list_all is_ascii name then
                            (case format_other e (c # cs) message of
                               Inl msg \<Rightarrow> Inl (Exception msg)
                             | Inr text \<Rightarrow> Inr text)
                          else Inl (Exception (repr e name)))
                    else
                      (case format_other e (c # cs) message of
                         Inl msg \<Rightarrow> Inl (Exception msg)
                       | Inr text \<Rightarrow> Inr text)))
      else prepend [c] (format e cs message))"
  by pat_completeness auto
termination
proof (relation "measure (\<lambda>(e, template, message). length template)")
  fix e :: env and c :: char and cs :: string and message :: string and rs :: string and r :: char
  assume "dropWhile plain_char cs = r # rs"
  then have "length (r # rs) \<le> length cs"
    by (metis length_dropWhile_le)
  then show "((e, rs, message), (e, c # cs, message))
      \<in> measure (\<lambda>(e, template, message). length template)"
    by simp
qed simp_all

text \<open>Lines 73-76 of \<open>build_error_message\<close>: the message of a tag error.\<close>

definition tag_error_message :: "env \<Rightarrow> boundary_error \<Rightarrow> string" where
  "tag_error_message e error =
     ''Cannot import '' @ [CHR 0x27] @ import_mod_path error @ [CHR 0x27] @ ''. ''
       @ ''Tags '' @ str_list e (source_tags (error_info error)) @ '' cannot depend on ''
       @ str_list e (invalid_tags (error_info error)) @ ''.''"

text \<open>\<open>build_error_message\<close> returns the message or raises what \<open>str.format\<close> raises.\<close>

definition build_error_message :: "env \<Rightarrow> boundary_error \<Rightarrow> raised + string" where
  "build_error_message e error =
     (let error_location = create_clickable_link e (file_path error) (line_number error);
          error_template' = error_template e error_location;
          info = error_info error
      in if exception_message info \<noteq> [] then
           format e error_template' (exception_message info)
         else if \<not> is_tag_error info then
           format e error_template' ''Unexpected error''
         else
           format e error_template' (tag_error_message e error))"

text \<open>
  The loop of \<open>print_errors\<close>: the message of an error is built, then printed; an
  exception while building it ends the loop, and nothing in \<open>print_errors\<close> catches it.
\<close>

fun print_each :: "env \<Rightarrow> boundary_error list \<Rightarrow> event list \<times> outcome" where
  "print_each e [] = ([], Returned)"
| "print_each e (error # rest) =
     (case build_error_message e error of
        Inl r \<Rightarrow> ([], Raised r)
      | Inr message \<Rightarrow>
          (case print_each e rest of (t, out) \<Rightarrow> (PrintErr message # t, out)))"

definition print_errors :: "env \<Rightarrow> boundary_error list \<Rightarrow> event list \<times> outcome" where
  "print_errors e error_list =
     (let sorted_results = sort_key file_path error_list
      in print_each e sorted_results)"

definition print_extra_constraints :: "env \<Rightarrow> tag_dependency_rules list \<Rightarrow> event list" where
  "print_extra_constraints e constraints' =
     (let constraint_messages =
            join [char_of (10::nat)]
              (map (\<lambda>constraint. [char_of (9::nat)] @ WARNING e @ tag constraint
                      @ '' does not depend on: '' @ str_list e (depends_on constraint) @ ENDC e)
                 constraints')
      in [Print (CROSS_MARK @ '' '' @ FAIL e @ ''Found unused dependencies: '' @ ENDC e
                 @ [char_of (10::nat)] @ constraint_messages)])"

subsection \<open>Parsing the command line\<close>

text \<open>
  \<open>parse_arguments\<close>: the parser runs first (what \<open>argparse\<close> prints itself is not
  recorded), then \<open>args[0]\<close> is read, which raises \<open>IndexError\<close> on the empty list.
\<close>

definition parse_arguments :: "env \<Rightarrow> string list \<Rightarrow> event list \<times> (raised + namespace)" where
  "parse_arguments e args =
     (case parse_args e args of
        Inl r \<Rightarrow> ([], Inl r)
      | Inr parsed_args \<Rightarrow>
          (case args of
             [] \<Rightarrow> ([], Inl (Exception ''list index out of range''))
           | a # _ \<Rightarrow>
               if a \<notin> set [''init'', ''add'', ''clean'', ''sync''] then
                 (case validate_project_config_path e of
                    Inl r \<Rightarrow> ([CallValidateProjectConfigPath], Inl r)
                  | Inr _ \<Rightarrow> ([CallValidateProjectConfigPath], Inr parsed_args))
               else ([], Inr parsed_args)))"

subsection \<open>The check command\<close>

text \<open>Lines 234-235: the \<open>exact\<close> in effect after the configuration is loaded.\<close>

definition exact_mode :: "bool \<Rightarrow> project_config \<Rightarrow> bool" where
  "exact_mode exact' project_config =
     (if exact' = False \<and> exact project_config = True then True else exact')"

text \<open>
  Lines 236-239: the \<open>exclude_paths\<close> in effect. \<open>extend\<close> appends the policy's list to
  the list of the command line; in every other case the policy's value is taken.
\<close>

definition merged_exclude_paths :: "string list option \<Rightarrow> project_config \<Rightarrow> string list option" where
  "merged_exclude_paths exclude_paths project_config =
     (case exclude_paths of
        Some xs \<Rightarrow>
          (case exclude project_config of
             Some ys \<Rightarrow> Some (xs @ ys)
           | None \<Rightarrow> exclude project_config)
      | None \<Rightarrow> exclude project_config)"

text \<open>
  The \<open>try\<close> block of \<open>tach_check\<close>: its events, and either what was raised inside it
  or the boundary errors it leaves.
\<close>

definition tach_check_try ::
  "env \<Rightarrow> bool \<Rightarrow> string list option \<Rightarrow> event list \<times> (raised + boundary_error list)" where
  "tach_check_try e exact' exclude_paths =
     (case parse_project_config e of
        Inl r \<Rightarrow> ([CallParseProjectConfig], Inl r)
      | Inr project_config \<Rightarrow>
          (let exact'' = exact_mode exact' project_config;
               exclude_paths' = merged_exclude_paths exclude_paths project_config;
               t1 = [CallParseProjectConfig,
                     CallCheck project_config exclude_paths' (exclude_hidden_paths project_config)]
           in case check e project_config exclude_paths' (exclude_hidden_paths project_config) of
                Inl r \<Rightarrow> (t1, Inl r)
              | Inr boundary_errors \<Rightarrow>
                  if boundary_errors = [] \<and> exact'' then
                    (let t2 = t1 @ [CallPrune project_config exclude_paths']
                     in case prune_dependency_constraints e project_config exclude_paths' of
                          Inl r \<Rightarrow> (t2, Inl r)
                        | Inr pruned_config \<Rightarrow>
                            (let t3 = t2 @ [CallFindExtraConstraints pruned_config project_config]
                             in case find_extra_constraints e pruned_config project_config of
                                  Inl r \<Rightarrow> (t3, Inl r)
                                | Inr extra_constraints \<Rightarrow>
                                    if extra_constraints \<noteq> [] then
                                      (t3 @ [StopSpinner] @ print_extra_constraints e extra_constraints,
                                       Inl (SystemExit 1))
                                    else (t3, Inr boundary_errors)))
                  else (t1, Inr boundary_errors)))"

definition success_message :: "env \<Rightarrow> string" where
  "success_message e = CHECK_MARK @ '' '' @ OKGREEN e @ ''All package dependencies validated!'' @ ENDC e"

text \<open>
  \<open>tach_check\<close> never returns: every path ends in \<open>sys.exit\<close> or in what a call
  raised. \<open>print_errors\<close> is called after the \<open>try\<close> block, so that what it raises is
  not caught.
\<close>

definition tach_check :: "env \<Rightarrow> bool \<Rightarrow> string list option \<Rightarrow> event list \<times> raised" where
  "tach_check e exact' exclude_paths =
     (case tach_check_try e exact' exclude_paths of
        (t, Inl (Exception msg)) \<Rightarrow> (t @ [StopSpinner, Print msg], SystemExit 1)
      | (t, Inl (SystemExit n)) \<Rightarrow> (t, SystemExit n)
      | (t, Inr boundary_errors) \<Rightarrow>
          if boundary_errors \<noteq> [] then
            (case print_errors e boundary_errors of
               (t', Raised r) \<Rightarrow> (t @ [StopSpinner] @ t', r)
             | (t', Returned) \<Rightarrow> (t @ [StopSpinner] @ t', SystemExit 1))
          else (t @ [StopSpinner, Print (success_message e)], SystemExit 0))"

subsection \<open>The other commands\<close>

definition print_warnings :: "string list \<Rightarrow> event list" where
  "print_warnings warnings = (if warnings \<noteq> [] then [Print (join [char_of (10::nat)] warnings)] else [])"

definition tach_init :: "env \<Rightarrow> int option \<Rightarrow> string list option \<Rightarrow> event list \<times> raised" where
  "tach_init e depth exclude_paths =
     (case init_project e depth exclude_paths of
        Inl (Exception msg) \<Rightarrow> ([CallInitProject depth exclude_paths, Print msg], SystemExit 1)
      | Inl (SystemExit n) \<Rightarrow> ([CallInitProject depth exclude_paths], SystemExit n)
      | Inr warnings \<Rightarrow>
          ([CallInitProject depth exclude_paths] @ print_warnings warnings
           @ [Print (CHECK_MARK @ '' '' @ OKGREEN e @ ''Initialized '' @ [CHR 0x27] @ CONFIG_FILE_NAME e
                     @ ''.yml'' @ [CHR 0x27] @ ENDC e)],
           SystemExit 0))"

definition tach_sync :: "env \<Rightarrow> bool \<Rightarrow> string list option \<Rightarrow> event list \<times> raised" where
  "tach_sync e prune exclude_paths =
     (case sync_project e prune exclude_paths of
        Inl (Exception msg) \<Rightarrow> ([CallSyncProject prune exclude_paths, Print msg], SystemExit 1)
      | Inl (SystemExit n) \<Rightarrow> ([CallSyncProject prune exclude_paths], SystemExit n)
      | Inr _ \<Rightarrow>
          ([CallSyncProject prune exclude_paths,
            Print (CHECK_MARK @ '' '' @ OKGREEN e @ ''Synced dependencies.'' @ ENDC e)],
           SystemExit 0))"

definition tach_add :: "env \<Rightarrow> string set \<Rightarrow> string set option \<Rightarrow> event list \<times> raised" where
  "tach_add e paths tags =
     (case add_packages e paths tags of
        Inl (Exception msg) \<Rightarrow> ([CallAddPackages paths tags, StopSpinner, Print msg], SystemExit 1)
      | Inl (SystemExit n) \<Rightarrow> ([CallAddPackages paths tags], SystemExit n)
      | Inr warnings \<Rightarrow>
          ([CallAddPackages paths tags, StopSpinner] @ print_warnings warnings
           @ [Print (CHECK_MARK @ '' '' @ OKGREEN e
                     @ (if card paths > 1 then ''Packages added.'' else ''Package added.'') @ ENDC e)],
           SystemExit 0))"

text \<open>Line 317: \<open>fs.find_project_config_root(".") or "."\<close>.\<close>

definition root_or_dot :: "string option \<Rightarrow> string" where
  "root_or_dot found = (case found of Some p \<Rightarrow> if p \<noteq> [] then p else ''.'' | None \<Rightarrow> ''.'')"

text \<open>Line 326: the prompt of the confirmation.\<close>

definition confirm_prompt :: "env \<Rightarrow> string" where
  "confirm_prompt e = OKCYAN e @ ''Confirm deletion [y/N]? '' @ ENDC e @ '': ''"

text \<open>
  \<open>tach_clean\<close> returns when it is done (the process then ends with status 0); \<open>input\<close>
  and the two calls into the engine may raise, and nothing here catches that.
\<close>

definition tach_clean :: "env \<Rightarrow> bool \<Rightarrow> event list \<times> outcome" where
  "tach_clean e force =
     (let t0 = [Print (WARNING e @ ''This will DELETE all existing configuration for '' @ TOOL_NAME e
                       @ ''.'' @ ENDC e),
                CallFindProjectConfigRoot]
      in case find_project_config_root e of
           Inl r \<Rightarrow> (t0, Raised r)
         | Inr found \<Rightarrow>
             (let root = root_or_dot found;
                  t1 = t0 @ [Print (WARNING e @ ''Deletion will occur for project with root: ''
                                    @ [CHR 0x27] @ abspath e root @ [CHR 0x27] @ ENDC e)]
              in case (if force then ([], Inr True)
                       else (case input e (confirm_prompt e) of
                               Inl r \<Rightarrow> ([CallInput (confirm_prompt e)], Inl r)
                             | Inr response \<Rightarrow>
                                 ([CallInput (confirm_prompt e)],
                                  Inr (lower response \<in> set [''y'', ''yes'']))))
                 of
                   (t2, Inl r) \<Rightarrow> (t1 @ t2, Raised r)
                 | (t2, Inr confirmed) \<Rightarrow>
                     if confirmed then
                       (case clean_project e root of
                          Inl r \<Rightarrow> (t1 @ t2 @ [CallCleanProject root], Raised r)
                        | Inr _ \<Rightarrow> (t1 @ t2 @ [CallCleanProject root], Returned))
                     else
                       (t1 @ t2 @ [Print (OKCYAN e @ ''Not deleting configuration.'' @ ENDC e)],
                        Returned)))"

datatype InstallTarget = PRE_COMMIT

definition tach_install :: "env \<Rightarrow> string \<Rightarrow> InstallTarget \<Rightarrow> event list \<times> raised" where
  "tach_install e path target =
     (case target of
        PRE_COMMIT \<Rightarrow>
          (case install_pre_commit e path of
             Inl (Exception msg) \<Rightarrow> ([CallInstallPreCommit path, Print msg], SystemExit 1)
           | Inl (SystemExit n) \<Rightarrow> ([CallInstallPreCommit path], SystemExit n)
           | Inr (installed, warning) \<Rightarrow>
               if installed then
                 ([CallInstallPreCommit path,
                   Print (CHECK_MARK @ '' '' @ OKGREEN e @ ''Pre-commit hook installed to ''
                          @ [CHR 0x27] @ ''.git/hooks/pre-commit'' @ [CHR 0x27] @ ''.'' @ ENDC e)],
                  SystemExit 0)
               else
                 ([CallInstallPreCommit path,
                   Print (WARNING e @ ''Pre-commit hook could not be installed: '' @ warning @ '' ''
                          @ ENDC e)],
                  SystemExit 1)))"

subsection \<open>The entry point\<close>

text \<open>Line 373: the exclude list of the command line, split on commas.\<close>

definition cli_exclude_paths :: "string option \<Rightarrow> string list option" where
  "cli_exclude_paths arg =
     (case arg of
        Some s \<Rightarrow> if s \<noteq> [] then Some (split CHR '','' s) else None
      | None \<Rightarrow> None)"

text \<open>\<open>main\<close> on \<open>sys.argv[1:]\<close>.\<close>

definition main :: "env \<Rightarrow> string list \<Rightarrow> event list \<times> outcome" where
  "main e argv =
     (case parse_arguments e argv of
        (t, Inl r) \<Rightarrow> (t, Raised r)
      | (t, Inr args) \<Rightarrow>
          if command args = Some ''add'' then
            (let paths = set (split CHR '','' (arg_path args));
                 tags = (case arg_tags args of
                           Some s \<Rightarrow> if s \<noteq> [] then Some (set (split CHR '','' s)) else None
                         | None \<Rightarrow> None)
             in case tach_add e paths tags of (t', r) \<Rightarrow> (t @ t', Raised r))
          else
            (let exclude_paths = cli_exclude_paths (arg_exclude args)
             in if command args = Some ''init'' then
                  (case tach_init e (arg_depth args) exclude_paths of
                     (t', r) \<Rightarrow> (t @ t', Raised r))
                else if command args = Some ''sync'' then
                  (case tach_sync e (arg_prune args) exclude_paths of
                     (t', r) \<Rightarrow> (t @ t', Raised r))
                else if command args = Some ''check'' then
                  (case tach_check e (arg_exact args) exclude_paths of
                     (t', r) \<Rightarrow> (t @ [StartSpinner ''Scanning...''] @ t', Raised r))
                else if command args = Some ''clean'' then
                  (case tach_clean e (arg_force args) of
                     (t', out) \<Rightarrow> (t @ t', out))
                else if command args = Some ''install'' then
                  (if arg_target args = ''pre-commit'' then
                     (case tach_install e (arg_path args) PRE_COMMIT of
                        (t', r) \<Rightarrow> (t @ t', Raised r))
                   else
                     (t @ [Print (arg_target args @ '' is not a valid installation target.'')],
                      Raised (SystemExit 1)))
                else
                  (t @ [Print ''Unrecognized command'', PrintHelp], Raised (SystemExit 1))))"

subsection \<open>Example inputs\<close>

text \<open>
  A project with one rule, one boundary error, and an outside world in which every call
  succeeds and finds nothing; the examples below change one field of it at a time.
\<close>

definition example_rule :: tag_dependency_rules where
  "example_rule = \<lparr>tag = ''low'', depends_on = [''high'']\<rparr>"

definition example_config :: project_config where
  "example_config =
     \<lparr>exact = False, exclude = Some [''tests'', ''docs''], exclude_hidden_paths = True,
      constraints = [example_rule]\<rparr>"

definition example_error :: boundary_error where
  "example_error =
     \<lparr>file_path = ''core/a.py'', line_number = Some 7, import_mod_path = ''api.views'',
      error_info = \<lparr>exception_message = [], is_tag_error = True, source_tags = [''low''],
                    invalid_tags = [''high'']\<rparr>\<rparr>"

definition example_namespace :: namespace where
  "example_namespace =
     \<lparr>command = Some ''check'', arg_exclude = Some ''ci,build'', arg_exact = False,
      arg_depth = None, arg_path = ''.'', arg_tags = None, arg_target = ''pre-commit'',
      arg_prune = False, arg_force = False\<rparr>"

definition example_env :: env where
  "example_env =
     \<lparr>TERMINAL_EMULATOR = [], TERM_PROGRAM = [],
      abspath = (\<lambda>p. ''/proj/'' @ p),
      str_list = (\<lambda>xs. ''['' @ join '', '' (map (\<lambda>x. [CHR 0x27] @ x @ [CHR 0x27]) xs) @ '']''),
      repr = (\<lambda>x. [CHR 0x27] @ x @ [CHR 0x27]),
      format_other = (\<lambda>template message. Inl ''unsupported format string''),
      FAIL = ESC @ ''[91m'', ENDC = ESC @ ''[0m'', WARNING = ESC @ ''[93m'',
      OKGREEN = ESC @ ''[92m'', OKCYAN = ESC @ ''[96m'',
      TOOL_NAME = ''tach'', CONFIG_FILE_NAME = ''tach'',
      parse_args = (\<lambda>args. if args = [] then Inr (example_namespace\<lparr>command := None\<rparr>)
                             else Inr (example_namespace\<lparr>command := Some (hd args)\<rparr>)),
      validate_project_config_path = Inr (),
      parse_project_config = Inr example_config,
      check = (\<lambda>cfg ex hid. Inr []),
      prune_dependency_constraints = (\<lambda>cfg ex. Inr (cfg\<lparr>constraints := []\<rparr>)),
      find_extra_constraints = (\<lambda>pruned cfg. Inr []),
      find_project_config_root = Inr None,
      input = (\<lambda>prompt. Inr []),
      clean_project = (\<lambda>root. Inr ()),
      init_project = (\<lambda>depth ex. Inr []),
      sync_project = (\<lambda>prune ex. Inr ()),
      add_packages = (\<lambda>paths tags. Inr []),
      install_pre_commit = (\<lambda>path. Inr (True, []))\<rparr>"

definition env_extra :: env where
  "env_extra = example_env\<lparr>find_extra_constraints := (\<lambda>pruned cfg. Inr (constraints cfg))\<rparr>"

definition env_violation :: env where
  "env_violation = example_env\<lparr>check := (\<lambda>cfg ex hid. Inr [example_error])\<rparr>"

definition env_policy_exact :: env where
  "env_policy_exact = example_env\<lparr>parse_project_config := Inr (example_config\<lparr>exact := True\<rparr>)\<rparr>"

definition env_no_config :: env where
  "env_no_config =
     example_env\<lparr>parse_project_config := Inl (Exception ''tach.yml not found'')\<rparr>"

definition env_no_config_path :: env where
  "env_no_config_path = example_env\<lparr>validate_project_config_path := Inl (SystemExit 1)\<rparr>"

definition env_answer :: "string \<Rightarrow> env" where
  "env_answer response = example_env\<lparr>input := (\<lambda>prompt. Inr response)\<rparr>"

definition env_no_answer :: env where
  "env_no_answer = example_env\<lparr>input := (\<lambda>prompt. Inl (Exception ''EOF when reading a line''))\<rparr>"

definition second_error :: boundary_error where
  "second_error =
     \<lparr>file_path = ''api/b.py'', line_number = Some 12, import_mod_path = ''core.db'',
      error_info = \<lparr>exception_message = ''unparsable'', is_tag_error = False, source_tags = [],
                    invalid_tags = []\<rparr>\<rparr>"

definition env_vscode :: env where
  "env_vscode = example_env\<lparr>TERM_PROGRAM := ''vscode''\<rparr>"

definition unexpected_error :: boundary_error where
  "unexpected_error =
     example_error\<lparr>error_info := (error_info example_error)\<lparr>is_tag_error := False\<rparr>\<rparr>"


definition braces_error :: boundary_error where
  "braces_error = example_error\<lparr>file_path := ''api/{x}.py''\<rparr>"

definition env_braces :: env where
  "env_braces = example_env\<lparr>check := (\<lambda>cfg ex hid. Inr [example_error, braces_error])\<rparr>"

subsection \<open>Notions used in the properties\<close>

text \<open>A string without a brace: \<open>str.format\<close> copies it as it is.\<close>

definition no_braces :: "string \<Rightarrow> bool" where
  "no_braces s = (CHR ''{'' \<notin> set s \<and> CHR ''}'' \<notin> set s)"

text \<open>
  An error whose template holds no brace but those of \<open>{message}\<close>: the colours, the file
  path and the absolute path are free of braces.
\<close>

definition brace_free :: "env \<Rightarrow> boundary_error \<Rightarrow> bool" where
  "brace_free e err =
     (no_braces (FAIL e) \<and> no_braces (ENDC e) \<and> no_braces (WARNING e) \<and>
      no_braces (file_path err) \<and> no_braces (abspath e (file_path err)))"

text \<open>The template with a text in the place of \<open>{message}\<close>.\<close>

definition filled_template :: "env \<Rightarrow> string \<Rightarrow> string \<Rightarrow> string" where
  "filled_template e error_location message =
     CROSS_MARK @ '' '' @ FAIL e @ error_location @ ENDC e @ WARNING e @ '': '' @ message @ '' '' @ ENDC e"

text \<open>The message of \<open>example_error\<close> in a terminal that is not recognised.\<close>

definition example_text :: string where
  "example_text =
     filled_template example_env (create_clickable_link example_env ''core/a.py'' (Some 7))
       (tag_error_message example_env example_error)"

section \<open>Properties\<close>

subsection \<open>The runs of the check command\<close>

lemma print_each_events:
  "print_each e errs = (t, out) \<Longrightarrow> ev \<in> set t \<Longrightarrow> \<exists>m. ev = PrintErr m"
  by (induction errs arbitrary: t out ev) (auto split: sum.splits prod.splits)

lemma print_errors_events:
  "print_errors e errs = (t, out) \<Longrightarrow> ev \<in> set t \<Longrightarrow> \<exists>m. ev = PrintErr m"
  unfolding print_errors_def Let_def by (rule print_each_events)

lemma print_extra_constraints_events: "ev \<in> set (print_extra_constraints e cs) \<Longrightarrow> \<exists>m. ev = Print m"
  by (auto simp: print_extra_constraints_def Let_def)

lemma tach_check_config_raises:
  "parse_project_config e = Inl (Exception msg) \<Longrightarrow>
   tach_check e ex xs = ([CallParseProjectConfig, StopSpinner, Print msg], SystemExit 1)"
  by (simp add: tach_check_def tach_check_try_def)

lemma tach_check_errors:
  "parse_project_config e = Inr cfg \<Longrightarrow>
   check e cfg (merged_exclude_paths xs cfg) (exclude_hidden_paths cfg) = Inr errs \<Longrightarrow>
   errs \<noteq> [] \<Longrightarrow>
   tach_check e ex xs =
     ([CallParseProjectConfig, CallCheck cfg (merged_exclude_paths xs cfg) (exclude_hidden_paths cfg),
       StopSpinner] @ fst (print_errors e errs),
      (case snd (print_errors e errs) of Returned \<Rightarrow> SystemExit 1 | Raised r \<Rightarrow> r))"
  by (simp add: tach_check_def tach_check_try_def Let_def split: prod.splits outcome.splits)

lemma tach_check_not_exact:
  "parse_project_config e = Inr cfg \<Longrightarrow>
   check e cfg (merged_exclude_paths xs cfg) (exclude_hidden_paths cfg) = Inr [] \<Longrightarrow>
   \<not> exact_mode ex cfg \<Longrightarrow>
   tach_check e ex xs =
     ([CallParseProjectConfig, CallCheck cfg (merged_exclude_paths xs cfg) (exclude_hidden_paths cfg),
       StopSpinner, Print (success_message e)], SystemExit 0)"
  by (simp add: tach_check_def tach_check_try_def Let_def)

lemma tach_check_exact_clean:
  "parse_project_config e = Inr cfg \<Longrightarrow>
   check e cfg (merged_exclude_paths xs cfg) (exclude_hidden_paths cfg) = Inr [] \<Longrightarrow>
   exact_mode ex cfg \<Longrightarrow>
   prune_dependency_constraints e cfg (merged_exclude_paths xs cfg) = Inr pruned \<Longrightarrow>
   find_extra_constraints e pruned cfg = Inr [] \<Longrightarrow>
   tach_check e ex xs =
     ([CallParseProjectConfig, CallCheck cfg (merged_exclude_paths xs cfg) (exclude_hidden_paths cfg),
       CallPrune cfg (merged_exclude_paths xs cfg), CallFindExtraConstraints pruned cfg,
       StopSpinner, Print (success_message e)], SystemExit 0)"
  by (simp add: tach_check_def tach_check_try_def Let_def)

lemma tach_check_exact_extra:
  "parse_project_config e = Inr cfg \<Longrightarrow>
   check e cfg (merged_exclude_paths xs cfg) (exclude_hidden_paths cfg) = Inr [] \<Longrightarrow>
   exact_mode ex cfg \<Longrightarrow>
   prune_dependency_constraints e cfg (merged_exclude_paths xs cfg) = Inr pruned \<Longrightarrow>
   find_extra_constraints e pruned cfg = Inr extra \<Longrightarrow>
   extra \<noteq> [] \<Longrightarrow>
   tach_check e ex xs =
     ([CallParseProjectConfig, CallCheck cfg (merged_exclude_paths xs cfg) (exclude_hidden_paths cfg),
       CallPrune cfg (merged_exclude_paths xs cfg), CallFindExtraConstraints pruned cfg,
       StopSpinner] @ print_extra_constraints e extra, SystemExit 1)"
  by (simp add: tach_check_def tach_check_try_def Let_def)

lemma prune_called_cases:
  "CallPrune c p \<in> set (fst (tach_check e ex xs)) \<Longrightarrow>
   parse_project_config e = Inr c \<and> p = merged_exclude_paths xs c \<and> exact_mode ex c \<and>
   check e c p (exclude_hidden_paths c) = Inr [] \<and>
   take 3 (fst (tach_check e ex xs)) =
     [CallParseProjectConfig, CallCheck c p (exclude_hidden_paths c), CallPrune c p]"
  by (auto simp: tach_check_def tach_check_try_def Let_def
      split: sum.splits raised.splits if_splits prod.splits outcome.splits
      dest: print_errors_events dest!: print_extra_constraints_events)

lemma check_called_cases:
  "CallCheck c p h \<in> set (fst (tach_check e ex xs)) \<Longrightarrow>
   parse_project_config e = Inr c \<and> p = merged_exclude_paths xs c \<and> h = exclude_hidden_paths c"
  by (auto simp: tach_check_def tach_check_try_def Let_def
      split: sum.splits raised.splits if_splits prod.splits outcome.splits
      dest: print_errors_events dest!: print_extra_constraints_events)

lemma env_extra_simps:
  "parse_project_config env_extra = Inr example_config"
  "check env_extra c p h = Inr []"
  "prune_dependency_constraints env_extra c p = Inr (c\<lparr>constraints := []\<rparr>)"
  "find_extra_constraints env_extra pruned c = Inr (constraints c)"
  by (simp_all add: env_extra_def example_env_def)

lemma env_violation_simps:
  "parse_project_config env_violation = Inr example_config"
  "check env_violation c p h = Inr [example_error]"
  by (simp_all add: env_violation_def example_env_def)

lemma example_config_simps:
  "exact example_config = False"
  "exclude example_config = Some [''tests'', ''docs'']"
  "exclude_hidden_paths example_config = True"
  "constraints example_config = [example_rule]"
  by (simp_all add: example_config_def)

lemma join_has_each: "x \<in> set xs \<Longrightarrow> sublist x (join sep xs)"
proof (induction sep xs rule: join.induct)
  case (1 sep)
  then show ?case by simp
next
  case (2 sep y)
  then show ?case by simp
next
  case (3 sep y z zs)
  show ?case
  proof (cases "x = y")
    case True
    then show ?thesis by simp
  next
    case False
    with 3 have "sublist x (join sep (z # zs))"
      by simp
    then have "sublist x ((y @ sep) @ join sep (z # zs))"
      by (metis sublist_append)
    then show ?thesis by simp
  qed
qed

lemma extra_constraints_report:
  "\<exists>text. print_extra_constraints e cs = [Print text] \<and>
     sublist ''Found unused dependencies: '' text \<and>
     (\<forall>c \<in> set cs. sublist (tag c @ '' does not depend on: '' @ str_list e (depends_on c)) text)"
proof -
  define line where "line = (\<lambda>c::tag_dependency_rules. [char_of (9::nat)] @ WARNING e @ tag c
      @ '' does not depend on: '' @ str_list e (depends_on c) @ ENDC e)"
  define head where "head = CROSS_MARK @ '' '' @ FAIL e"
  define report where "report = head @ ''Found unused dependencies: '' @ (ENDC e
      @ [char_of (10::nat)] @ join [char_of (10::nat)] (map line cs))"
  have p: "print_extra_constraints e cs = [Print report]"
    by (simp add: print_extra_constraints_def report_def line_def head_def)
  have h: "sublist ''Found unused dependencies: '' report"
    unfolding report_def by (rule sublist_appendI)
  have "sublist (tag c @ '' does not depend on: '' @ str_list e (depends_on c)) report"
    if "c \<in> set cs" for c
  proof -
    have "sublist (tag c @ '' does not depend on: '' @ str_list e (depends_on c))
        (([char_of (9::nat)] @ WARNING e)
          @ (tag c @ '' does not depend on: '' @ str_list e (depends_on c)) @ ENDC e)"
      by (rule sublist_appendI)
    then have "sublist (tag c @ '' does not depend on: '' @ str_list e (depends_on c)) (line c)"
      by (simp add: line_def)
    moreover from that have "sublist (line c) (join [char_of (10::nat)] (map line cs))"
      by (simp add: join_has_each)
    ultimately have "sublist (tag c @ '' does not depend on: '' @ str_list e (depends_on c))
        (join [char_of (10::nat)] (map line cs))"
      by (rule sublist_order.order_trans)
    then have "sublist (tag c @ '' does not depend on: '' @ str_list e (depends_on c))
        ((head @ ''Found unused dependencies: '' @ ENDC e @ [char_of (10::nat)])
          @ join [char_of (10::nat)] (map line cs))"
      by (metis sublist_append)
    then show ?thesis
      by (simp add: report_def)
  qed
  with p h show ?thesis by blast
qed

text \<open>
  C1. In exact mode the unused-constraint step (Prune) runs only after the Validator has
  returned no boundary error: a run that calls Prune is in exact mode, its check returned the
  empty list, and the call of the check comes right before the call of Prune. A run whose
  check returns a violation never calls Prune. When Prune runs and at least one extra
  constraint is found, the process exits with status 1 after the report of
  \<open>print_extra_constraints\<close>: one printed text that says \<open>Found unused dependencies\<close> and
  names, for every extra constraint, its tag and the tags it does not depend on.
\<close>

theorem exact_check_is_sequential:
  "(\<forall>c p. CallPrune c p \<in> set (fst (tach_check e ex xs)) \<longrightarrow>
      exact_mode ex c \<and> parse_project_config e = Inr c \<and>
      check e c p (exclude_hidden_paths c) = Inr [] \<and>
      take 3 (fst (tach_check e ex xs)) =
        [CallParseProjectConfig, CallCheck c p (exclude_hidden_paths c), CallPrune c p])
   \<and> (\<forall>c errs. parse_project_config e = Inr c \<and>
         check e c (merged_exclude_paths xs c) (exclude_hidden_paths c) = Inr errs \<and> errs \<noteq> [] \<longrightarrow>
         (\<forall>c' p. CallPrune c' p \<notin> set (fst (tach_check e ex xs))))
   \<and> (\<forall>c pruned extra. parse_project_config e = Inr c \<and>
         check e c (merged_exclude_paths xs c) (exclude_hidden_paths c) = Inr [] \<and>
         exact_mode ex c \<and>
         prune_dependency_constraints e c (merged_exclude_paths xs c) = Inr pruned \<and>
         find_extra_constraints e pruned c = Inr extra \<and> extra \<noteq> [] \<longrightarrow>
         tach_check e ex xs =
           ([CallParseProjectConfig,
             CallCheck c (merged_exclude_paths xs c) (exclude_hidden_paths c),
             CallPrune c (merged_exclude_paths xs c),
             CallFindExtraConstraints pruned c,
             StopSpinner] @ print_extra_constraints e extra, SystemExit 1) \<and>
         (\<exists>text. print_extra_constraints e extra = [Print text] \<and>
            sublist ''Found unused dependencies: '' text \<and>
            (\<forall>r \<in> set extra.
               sublist (tag r @ '' does not depend on: '' @ str_list e (depends_on r)) text)))"
proof (intro conjI allI impI)
  fix c p
  assume "CallPrune c p \<in> set (fst (tach_check e ex xs))"
  from prune_called_cases [OF this]
  show "exact_mode ex c" and "parse_project_config e = Inr c"
    and "check e c p (exclude_hidden_paths c) = Inr []"
    and "take 3 (fst (tach_check e ex xs)) =
        [CallParseProjectConfig, CallCheck c p (exclude_hidden_paths c), CallPrune c p]"
    by blast+
next
  fix c errs c' p
  assume h: "parse_project_config e = Inr c \<and>
         check e c (merged_exclude_paths xs c) (exclude_hidden_paths c) = Inr errs \<and> errs \<noteq> []"
  show "CallPrune c' p \<notin> set (fst (tach_check e ex xs))"
  proof
    assume "CallPrune c' p \<in> set (fst (tach_check e ex xs))"
    from prune_called_cases [OF this] h show False by auto
  qed
next
  fix c pruned extra
  assume "parse_project_config e = Inr c \<and>
         check e c (merged_exclude_paths xs c) (exclude_hidden_paths c) = Inr [] \<and>
         exact_mode ex c \<and>
         prune_dependency_constraints e c (merged_exclude_paths xs c) = Inr pruned \<and>
         find_extra_constraints e pruned c = Inr extra \<and> extra \<noteq> []"
  then show "tach_check e ex xs =
           ([CallParseProjectConfig,
             CallCheck c (merged_exclude_paths xs c) (exclude_hidden_paths c),
             CallPrune c (merged_exclude_paths xs c),
             CallFindExtraConstraints pruned c,
             StopSpinner] @ print_extra_constraints e extra, SystemExit 1)"
    by (simp add: tach_check_exact_extra)
  show "\<exists>text. print_extra_constraints e extra = [Print text] \<and>
            sublist ''Found unused dependencies: '' text \<and>
            (\<forall>r \<in> set extra.
               sublist (tag r @ '' does not depend on: '' @ str_list e (depends_on r)) text)"
    by (rule extra_constraints_report)
qed

theorem exact_check_is_sequential_witness:
  "CallPrune example_config (Some [''tests'', ''docs''])
     \<in> set (fst (tach_check env_extra True None))
   \<and> exact_mode True example_config
   \<and> check env_extra example_config (Some [''tests'', ''docs'']) True = Inr []
   \<and> find_extra_constraints env_extra (example_config\<lparr>constraints := []\<rparr>) example_config
        = Inr [example_rule]
   \<and> tach_check env_extra True None =
       ([CallParseProjectConfig,
         CallCheck example_config (Some [''tests'', ''docs'']) True,
         CallPrune example_config (Some [''tests'', ''docs'']),
         CallFindExtraConstraints (example_config\<lparr>constraints := []\<rparr>) example_config,
         StopSpinner] @ print_extra_constraints env_extra [example_rule], SystemExit 1)
   \<and> (\<exists>text. print_extra_constraints env_extra [example_rule] = [Print text] \<and>
         sublist ''Found unused dependencies: '' text \<and>
         sublist (tag example_rule @ '' does not depend on: ''
                  @ str_list env_extra (depends_on example_rule)) text)
   \<and> check env_violation example_config (Some [''tests'', ''docs'']) True = Inr [example_error]
   \<and> (\<forall>c' p. CallPrune c' p \<notin> set (fst (tach_check env_violation True None)))"
proof -
  have m: "merged_exclude_paths None example_config = Some [''tests'', ''docs'']"
    by (simp add: merged_exclude_paths_def example_config_simps)
  have x: "exact_mode True example_config"
    by (simp add: exact_mode_def)
  have h: "parse_project_config env_extra = Inr example_config \<and>
      check env_extra example_config (merged_exclude_paths None example_config)
        (exclude_hidden_paths example_config) = Inr [] \<and>
      exact_mode True example_config \<and>
      prune_dependency_constraints env_extra example_config
        (merged_exclude_paths None example_config) = Inr (example_config\<lparr>constraints := []\<rparr>) \<and>
      find_extra_constraints env_extra (example_config\<lparr>constraints := []\<rparr>) example_config
        = Inr [example_rule] \<and>
      [example_rule] \<noteq> []"
    using x by (simp add: env_extra_simps example_config_simps)
  note t = exact_check_is_sequential [of env_extra True None, THEN conjunct2, THEN conjunct2,
      rule_format, OF h]
  from t m have a: "tach_check env_extra True None =
       ([CallParseProjectConfig,
         CallCheck example_config (Some [''tests'', ''docs'']) True,
         CallPrune example_config (Some [''tests'', ''docs'']),
         CallFindExtraConstraints (example_config\<lparr>constraints := []\<rparr>) example_config,
         StopSpinner] @ print_extra_constraints env_extra [example_rule], SystemExit 1)"
    by (simp add: example_config_simps)
  from t have r: "\<exists>text. print_extra_constraints env_extra [example_rule] = [Print text] \<and>
         sublist ''Found unused dependencies: '' text \<and>
         sublist (tag example_rule @ '' does not depend on: ''
                  @ str_list env_extra (depends_on example_rule)) text"
    by auto
  have b: "\<forall>c' p. CallPrune c' p \<notin> set (fst (tach_check env_violation True None))"
    using exact_check_is_sequential [of env_violation True None] m
    by (simp add: env_violation_simps example_config_simps)
  have p: "CallPrune example_config (Some [''tests'', ''docs''])
     \<in> set (fst (tach_check env_extra True None))"
    unfolding a by simp
  have c: "check env_extra example_config (Some [''tests'', ''docs'']) True = Inr []"
    "find_extra_constraints env_extra (example_config\<lparr>constraints := []\<rparr>) example_config
        = Inr [example_rule]"
    "check env_violation example_config (Some [''tests'', ''docs'']) True = Inr [example_error]"
    by (simp_all add: env_extra_simps env_violation_simps example_config_simps)
  from a r b p x c show ?thesis
    by (intro conjI)
qed

subsection \<open>The check command from the entry point\<close>

lemma main_check:
  "parse_args e (a # rest) = Inr args \<Longrightarrow>
   a \<notin> set [''init'', ''add'', ''clean'', ''sync''] \<Longrightarrow>
   validate_project_config_path e = Inr u \<Longrightarrow>
   command args = Some ''check'' \<Longrightarrow>
   main e (a # rest) =
     ([CallValidateProjectConfigPath, StartSpinner ''Scanning...'']
        @ fst (tach_check e (arg_exact args) (cli_exclude_paths (arg_exclude args))),
      Raised (snd (tach_check e (arg_exact args) (cli_exclude_paths (arg_exclude args)))))"
  by (simp add: main_def parse_arguments_def Let_def split: prod.splits)

lemma example_env_simps:
  "parse_project_config example_env = Inr example_config"
  "check example_env c p h = Inr []"
  "prune_dependency_constraints example_env c p = Inr (c\<lparr>constraints := []\<rparr>)"
  "find_extra_constraints example_env pruned c = Inr []"
  "validate_project_config_path example_env = Inr ()"
  by (simp_all add: example_env_def)

lemma merged_example:
  "merged_exclude_paths None example_config = Some [''tests'', ''docs'']"
  "merged_exclude_paths (Some xs) example_config = Some (xs @ [''tests'', ''docs''])"
  by (simp_all add: merged_exclude_paths_def example_config_simps)

lemma env_braces_simps:
  "parse_project_config env_braces = Inr example_config"
  "check env_braces c p h = Inr [example_error, braces_error]"
  "validate_project_config_path env_braces = Inr ()"
  "parse_args env_braces (a # rest) = Inr (example_namespace\<lparr>command := Some a\<rparr>)"
  by (simp_all add: env_braces_def example_env_def)

text \<open>
  C3, on the code. The check returns two boundary errors; the file of one of them lies in a
  directory named \<open>{x}\<close>. Its message is built first (its path sorts first), \<open>str.format\<close>
  reads \<open>{x}\<close> in the location as a field and raises \<open>KeyError\<close>, and nothing catches it:
  the run ends in that exception with no error printed, the one that could be printed
  included.
\<close>

theorem check_run_stops_at_unformattable_error:
  "check env_braces example_config (Some [''ci'', ''build'', ''tests'', ''docs'']) True
     = Inr [example_error, braces_error]
   \<and> file_path braces_error = ''api/{x}.py''
   \<and> build_error_message env_braces braces_error = Inl (Exception [CHR 0x27, CHR ''x'', CHR 0x27])
   \<and> print_errors env_braces [example_error, braces_error]
       = ([], Raised (Exception [CHR 0x27, CHR ''x'', CHR 0x27]))
   \<and> main env_braces [''check''] =
       ([CallValidateProjectConfigPath, StartSpinner ''Scanning...'', CallParseProjectConfig,
         CallCheck example_config (Some [''ci'', ''build'', ''tests'', ''docs'']) True,
         StopSpinner],
        Raised (Exception [CHR 0x27, CHR ''x'', CHR 0x27]))"
proof -
  have b: "build_error_message env_braces braces_error
      = Inl (Exception [CHR 0x27, CHR ''x'', CHR 0x27])"
    by code_simp
  have s: "sort_key file_path [example_error, braces_error] = [braces_error, example_error]"
    by (simp add: example_error_def braces_error_def)
  have p: "print_errors env_braces [example_error, braces_error]
       = ([], Raised (Exception [CHR 0x27, CHR ''x'', CHR 0x27]))"
    unfolding print_errors_def Let_def s by (simp add: b)
  have sp: "cli_exclude_paths (Some ''ci,build'') = Some [''ci'', ''build'']"
    by (simp add: cli_exclude_paths_def)
  have t: "tach_check env_braces False (Some [''ci'', ''build'']) =
       ([CallParseProjectConfig,
         CallCheck example_config (Some [''ci'', ''build'', ''tests'', ''docs'']) True,
         StopSpinner],
        Exception [CHR 0x27, CHR ''x'', CHR 0x27])"
    using tach_check_errors [of env_braces example_config "Some [''ci'', ''build'']"
        "[example_error, braces_error]" False]
    by (simp add: env_braces_simps merged_example example_config_simps p)
  have m: "main env_braces [''check''] =
       ([CallValidateProjectConfigPath, StartSpinner ''Scanning...'', CallParseProjectConfig,
         CallCheck example_config (Some [''ci'', ''build'', ''tests'', ''docs'']) True,
         StopSpinner],
        Raised (Exception [CHR 0x27, CHR ''x'', CHR 0x27]))"
    using main_check [of env_braces "''check''" "[]"
        "example_namespace\<lparr>command := Some ''check''\<rparr>" "()"] sp t
    by (simp add: env_braces_simps example_namespace_def)
  from b p m show ?thesis
    by (simp add: env_braces_simps braces_error_def)
qed

text \<open>
  C5. Whenever the Prune step is called, its \<open>exclude_paths\<close> argument is the one the
  preceding call of the check received: the value lines 236-239 computed from the list of the
  command line and the policy's list (their concatenation when both are present, the
  policy's value otherwise). No call in the run receives any other list.
\<close>

theorem prune_reuses_exclude_paths:
  "(\<forall>c p. CallPrune c p \<in> set (fst (tach_check e ex xs)) \<longrightarrow>
      parse_project_config e = Inr c \<and>
      p = merged_exclude_paths xs c \<and>
      CallCheck c p (exclude_hidden_paths c) \<in> set (fst (tach_check e ex xs)) \<and>
      (\<forall>c' p' h. CallCheck c' p' h \<in> set (fst (tach_check e ex xs)) \<longrightarrow> c' = c \<and> p' = p) \<and>
      (\<forall>c' p'. CallPrune c' p' \<in> set (fst (tach_check e ex xs)) \<longrightarrow> c' = c \<and> p' = p))
   \<and> (\<forall>c cli pol. exclude c = Some pol \<longrightarrow> merged_exclude_paths (Some cli) c = Some (cli @ pol))
   \<and> (\<forall>c. merged_exclude_paths None c = exclude c)"
proof (intro conjI allI impI)
  fix c p
  assume a: "CallPrune c p \<in> set (fst (tach_check e ex xs))"
  note f = prune_called_cases [OF a]
  from f show "parse_project_config e = Inr c" by blast
  from f show "p = merged_exclude_paths xs c" by blast
  from f have t: "take 3 (fst (tach_check e ex xs)) =
     [CallParseProjectConfig, CallCheck c p (exclude_hidden_paths c), CallPrune c p]" by blast
  have "CallCheck c p (exclude_hidden_paths c) \<in> set (take 3 (fst (tach_check e ex xs)))"
    unfolding t by simp
  then show "CallCheck c p (exclude_hidden_paths c) \<in> set (fst (tach_check e ex xs))"
    by (rule in_set_takeD)
  {
    fix c' p' h
    assume "CallCheck c' p' h \<in> set (fst (tach_check e ex xs))"
    from check_called_cases [OF this] f show "c' = c" by auto
  }
  {
    fix c' p' h
    assume "CallCheck c' p' h \<in> set (fst (tach_check e ex xs))"
    from check_called_cases [OF this] f show "p' = p" by auto
  }
  {
    fix c' p'
    assume "CallPrune c' p' \<in> set (fst (tach_check e ex xs))"
    from prune_called_cases [OF this] f show "c' = c" by auto
  }
  {
    fix c' p'
    assume "CallPrune c' p' \<in> set (fst (tach_check e ex xs))"
    from prune_called_cases [OF this] f show "p' = p" by auto
  }
next
  fix c :: project_config and cli pol
  assume "exclude c = Some pol"
  then show "merged_exclude_paths (Some cli) c = Some (cli @ pol)"
    by (simp add: merged_exclude_paths_def)
next
  fix c
  show "merged_exclude_paths None c = exclude c"
    by (simp add: merged_exclude_paths_def)
qed

theorem prune_reuses_exclude_paths_witness:
  "CallPrune example_config (Some [''ci'', ''tests'', ''docs''])
     \<in> set (fst (tach_check env_extra True (Some [''ci''])))
   \<and> CallCheck example_config (Some [''ci'', ''tests'', ''docs'']) True
     \<in> set (fst (tach_check env_extra True (Some [''ci''])))
   \<and> exclude example_config = Some [''tests'', ''docs'']
   \<and> merged_exclude_paths (Some [''ci'']) example_config = Some [''ci'', ''tests'', ''docs'']"
proof -
  have a: "CallPrune example_config (Some [''ci'', ''tests'', ''docs''])
     \<in> set (fst (tach_check env_extra True (Some [''ci''])))"
    by (simp add: tach_check_def tach_check_try_def Let_def env_extra_simps merged_example
        exact_mode_def example_config_simps)
  note f = prune_reuses_exclude_paths [of env_extra True "Some [''ci'']", THEN conjunct1,
      rule_format, OF a]
  from f have "CallCheck example_config (Some [''ci'', ''tests'', ''docs''])
      (exclude_hidden_paths example_config)
     \<in> set (fst (tach_check env_extra True (Some [''ci''])))"
    by blast
  then show ?thesis
    using a by (simp add: example_config_simps merged_example)
qed

lemma prune_called_iff:
  "parse_project_config e = Inr c \<Longrightarrow>
   check e c (merged_exclude_paths xs c) (exclude_hidden_paths c) = Inr [] \<Longrightarrow>
   (CallPrune c (merged_exclude_paths xs c) \<in> set (fst (tach_check e ex xs))) = exact_mode ex c"
  by (auto simp: tach_check_def tach_check_try_def Let_def
      split: sum.splits raised.splits if_splits prod.splits outcome.splits
      dest: print_errors_events dest!: print_extra_constraints_events)

lemma check_called:
  "parse_project_config e = Inr c \<Longrightarrow>
   CallCheck c (merged_exclude_paths xs c) (exclude_hidden_paths c) \<in> set (fst (tach_check e ex xs))"
  by (auto simp: tach_check_def tach_check_try_def Let_def
      split: sum.splits raised.splits if_splits prod.splits outcome.splits)

text \<open>
  C6. Exact mode is in effect exactly when the flag of the command line is set or the
  policy's \<open>exact\<close> is true; a policy with \<open>exact\<close> true gives exact mode whatever the
  flag is. After a check without errors the Prune step is called exactly in that case, and
  \<open>main\<close> hands the flag of the command line to \<open>tach_check\<close> as it is.
\<close>

theorem exact_flag_or_policy_default:
  "(exact_mode ex c \<longleftrightarrow> ex \<or> exact c)
   \<and> (exact c \<longrightarrow> exact_mode False c \<and> exact_mode True c)
   \<and> (parse_project_config e = Inr c \<and>
        check e c (merged_exclude_paths xs c) (exclude_hidden_paths c) = Inr [] \<longrightarrow>
        (CallPrune c (merged_exclude_paths xs c) \<in> set (fst (tach_check e ex xs))
           \<longleftrightarrow> ex \<or> exact c))
   \<and> (\<forall>a rest args u. parse_args e (a # rest) = Inr args \<and>
        a \<notin> set [''init'', ''add'', ''clean'', ''sync''] \<and>
        validate_project_config_path e = Inr u \<and> command args = Some ''check'' \<longrightarrow>
        main e (a # rest) =
          ([CallValidateProjectConfigPath, StartSpinner ''Scanning...'']
             @ fst (tach_check e (arg_exact args) (cli_exclude_paths (arg_exclude args))),
           Raised (snd (tach_check e (arg_exact args) (cli_exclude_paths (arg_exclude args))))))"
proof (intro conjI allI impI)
  show x: "exact_mode ex c \<longleftrightarrow> ex \<or> exact c"
    by (simp add: exact_mode_def)
  show "exact_mode False c" if "exact c"
    using that by (simp add: exact_mode_def)
  show "exact_mode True c" if "exact c"
    by (simp add: exact_mode_def)
  show "CallPrune c (merged_exclude_paths xs c) \<in> set (fst (tach_check e ex xs))
           \<longleftrightarrow> ex \<or> exact c"
    if "parse_project_config e = Inr c \<and>
        check e c (merged_exclude_paths xs c) (exclude_hidden_paths c) = Inr []"
    using that x by (simp add: prune_called_iff)
next
  fix a rest args u
  assume "parse_args e (a # rest) = Inr args \<and>
        a \<notin> set [''init'', ''add'', ''clean'', ''sync''] \<and>
        validate_project_config_path e = Inr u \<and> command args = Some ''check''"
  then show "main e (a # rest) =
          ([CallValidateProjectConfigPath, StartSpinner ''Scanning...'']
             @ fst (tach_check e (arg_exact args) (cli_exclude_paths (arg_exclude args))),
           Raised (snd (tach_check e (arg_exact args) (cli_exclude_paths (arg_exclude args)))))"
    using main_check [of e a rest args u] by blast
qed

lemma example_parse_args:
  "parse_args example_env (a # rest) = Inr (example_namespace\<lparr>command := Some a\<rparr>)"
  by (simp add: example_env_def)

theorem exact_flag_or_policy_default_witness:
  "exact (example_config\<lparr>exact := True\<rparr>)
   \<and> exact_mode False (example_config\<lparr>exact := True\<rparr>)
   \<and> parse_project_config env_policy_exact = Inr (example_config\<lparr>exact := True\<rparr>)
   \<and> check env_policy_exact (example_config\<lparr>exact := True\<rparr>) (Some [''tests'', ''docs'']) True = Inr []
   \<and> CallPrune (example_config\<lparr>exact := True\<rparr>) (Some [''tests'', ''docs''])
        \<in> set (fst (tach_check env_policy_exact False None))
   \<and> CallPrune example_config (Some [''tests'', ''docs''])
        \<notin> set (fst (tach_check example_env False None))
   \<and> parse_args example_env [''check''] = Inr (example_namespace\<lparr>command := Some ''check''\<rparr>)
   \<and> ''check'' \<notin> set [''init'', ''add'', ''clean'', ''sync'']
   \<and> validate_project_config_path example_env = Inr ()
   \<and> fst (main example_env [''check'']) =
       [CallValidateProjectConfigPath, StartSpinner ''Scanning...'']
         @ fst (tach_check example_env False (Some [''ci'', ''build'']))"
proof -
  have m: "merged_exclude_paths None (example_config\<lparr>exact := True\<rparr>) = Some [''tests'', ''docs'']"
    by (simp add: merged_exclude_paths_def example_config_def)
  have s: "parse_project_config env_policy_exact = Inr (example_config\<lparr>exact := True\<rparr>)"
    "check env_policy_exact (example_config\<lparr>exact := True\<rparr>) (Some [''tests'', ''docs'']) True = Inr []"
    by (simp_all add: env_policy_exact_def example_env_def)
  have h: "exclude_hidden_paths (example_config\<lparr>exact := True\<rparr>) = True"
    by (simp add: example_config_def)
  have sp: "cli_exclude_paths (Some ''ci,build'') = Some [''ci'', ''build'']"
    by (simp add: cli_exclude_paths_def)
  have a: "exact_mode False (example_config\<lparr>exact := True\<rparr>)
     \<and> CallPrune (example_config\<lparr>exact := True\<rparr>) (Some [''tests'', ''docs''])
        \<in> set (fst (tach_check env_policy_exact False None))"
    using exact_flag_or_policy_default
      [of False "example_config\<lparr>exact := True\<rparr>" env_policy_exact None] m s h
    by simp
  have b: "CallPrune example_config (Some [''tests'', ''docs''])
        \<notin> set (fst (tach_check example_env False None))"
    using exact_flag_or_policy_default [of False example_config example_env None]
    by (simp add: example_env_simps example_config_simps merged_example)
  have c: "fst (main example_env [''check'']) =
       [CallValidateProjectConfigPath, StartSpinner ''Scanning...'']
         @ fst (tach_check example_env False (Some [''ci'', ''build'']))"
    using exact_flag_or_policy_default [of False example_config example_env None] sp
    by (simp add: example_parse_args example_env_simps example_namespace_def)
  show ?thesis using a b c s
    by (simp add: example_parse_args example_env_simps)
qed

subsection \<open>Validation of the configuration path\<close>

lemma main_parser_raises:
  "parse_args e argv = Inl r \<Longrightarrow> main e argv = ([], Raised r)"
  by (simp add: main_def parse_arguments_def)

lemma main_validation_first:
  "a \<notin> set [''init'', ''add'', ''clean'', ''sync''] \<Longrightarrow>
   parse_args e (a # rest) = Inr args \<Longrightarrow>
   \<exists>t. fst (main e (a # rest)) = CallValidateProjectConfigPath # t"
  by (auto simp: main_def parse_arguments_def Let_def split: sum.splits prod.splits)

lemma main_validation_raises:
  "a \<notin> set [''init'', ''add'', ''clean'', ''sync''] \<Longrightarrow>
   parse_args e (a # rest) = Inr args \<Longrightarrow>
   validate_project_config_path e = Inl r \<Longrightarrow>
   main e (a # rest) = ([CallValidateProjectConfigPath], Raised r)"
  by (simp add: main_def parse_arguments_def)

text \<open>
  C8. When loading the project configuration raises an exception, \<open>tach_check\<close> prints its
  message once and exits with status 1: the check is not called and no boundary error is
  printed. For a command line whose first word is not \<open>init\<close>, \<open>add\<close>, \<open>clean\<close> or
  \<open>sync\<close>, the validation of the configuration path is the first thing \<open>main\<close> does
  after parsing: when it raises, nothing else happens, and a call of the check is always
  preceded by it.
\<close>

theorem config_error_is_fatal:
  "(\<forall>msg. parse_project_config e = Inl (Exception msg) \<longrightarrow>
      tach_check e ex xs = ([CallParseProjectConfig, StopSpinner, Print msg], SystemExit 1))
   \<and> (\<forall>a rest. a \<notin> set [''init'', ''add'', ''clean'', ''sync''] \<longrightarrow>
        (\<forall>args r. parse_args e (a # rest) = Inr args \<and>
            validate_project_config_path e = Inl r \<longrightarrow>
            main e (a # rest) = ([CallValidateProjectConfigPath], Raised r))
        \<and> (\<forall>c p h. CallCheck c p h \<in> set (fst (main e (a # rest))) \<longrightarrow>
              hd (fst (main e (a # rest))) = CallValidateProjectConfigPath)
        \<and> (\<forall>args u msg. parse_args e (a # rest) = Inr args \<and>
              validate_project_config_path e = Inr u \<and> command args = Some ''check'' \<and>
              parse_project_config e = Inl (Exception msg) \<longrightarrow>
              main e (a # rest) =
                ([CallValidateProjectConfigPath, StartSpinner ''Scanning...'',
                  CallParseProjectConfig, StopSpinner, Print msg], Raised (SystemExit 1))))"
proof (intro conjI allI impI)
  fix msg
  assume "parse_project_config e = Inl (Exception msg)"
  then show "tach_check e ex xs = ([CallParseProjectConfig, StopSpinner, Print msg], SystemExit 1)"
    by (rule tach_check_config_raises)
next
  fix a rest args r
  assume "a \<notin> set [''init'', ''add'', ''clean'', ''sync'']"
    and "parse_args e (a # rest) = Inr args \<and> validate_project_config_path e = Inl r"
  then show "main e (a # rest) = ([CallValidateProjectConfigPath], Raised r)"
    using main_validation_raises [of a e rest args r] by blast
next
  fix a rest c p h
  assume a: "a \<notin> set [''init'', ''add'', ''clean'', ''sync'']"
    and c: "CallCheck c p h \<in> set (fst (main e (a # rest)))"
  show "hd (fst (main e (a # rest))) = CallValidateProjectConfigPath"
  proof (cases "parse_args e (a # rest)")
    case (Inl r)
    then have "fst (main e (a # rest)) = []"
      by (simp add: main_parser_raises)
    with c show ?thesis by simp
  next
    case (Inr args)
    from main_validation_first [OF a Inr] show ?thesis by auto
  qed
next
  fix a rest args u msg
  assume a: "a \<notin> set [''init'', ''add'', ''clean'', ''sync'']"
    and h: "parse_args e (a # rest) = Inr args \<and>
              validate_project_config_path e = Inr u \<and> command args = Some ''check'' \<and>
              parse_project_config e = Inl (Exception msg)"
  from h have "tach_check e (arg_exact args) (cli_exclude_paths (arg_exclude args))
      = ([CallParseProjectConfig, StopSpinner, Print msg], SystemExit 1)"
    by (simp add: tach_check_config_raises)
  with a h show "main e (a # rest) =
                ([CallValidateProjectConfigPath, StartSpinner ''Scanning...'',
                  CallParseProjectConfig, StopSpinner, Print msg], Raised (SystemExit 1))"
    using main_check [of e a rest args u] by simp
qed

theorem config_error_is_fatal_witness:
  "parse_project_config env_no_config = Inl (Exception ''tach.yml not found'')
   \<and> tach_check env_no_config True None =
       ([CallParseProjectConfig, StopSpinner, Print ''tach.yml not found''], SystemExit 1)
   \<and> ''check'' \<notin> set [''init'', ''add'', ''clean'', ''sync'']
   \<and> parse_args env_no_config_path [''check''] = Inr (example_namespace\<lparr>command := Some ''check''\<rparr>)
   \<and> validate_project_config_path env_no_config_path = Inl (SystemExit 1)
   \<and> main env_no_config_path [''check''] = ([CallValidateProjectConfigPath], Raised (SystemExit 1))
   \<and> parse_args env_no_config [''check''] = Inr (example_namespace\<lparr>command := Some ''check''\<rparr>)
   \<and> validate_project_config_path env_no_config = Inr ()
   \<and> main env_no_config [''check''] =
       ([CallValidateProjectConfigPath, StartSpinner ''Scanning...'',
         CallParseProjectConfig, StopSpinner, Print ''tach.yml not found''], Raised (SystemExit 1))
   \<and> CallCheck example_config (Some [''ci'', ''build'', ''tests'', ''docs'']) True
        \<in> set (fst (main example_env [''check'']))
   \<and> hd (fst (main example_env [''check''])) = CallValidateProjectConfigPath"
proof -
  have s: "parse_project_config env_no_config = Inl (Exception ''tach.yml not found'')"
    "parse_args env_no_config [''check''] = Inr (example_namespace\<lparr>command := Some ''check''\<rparr>)"
    "validate_project_config_path env_no_config = Inr ()"
    "parse_args env_no_config_path [''check''] = Inr (example_namespace\<lparr>command := Some ''check''\<rparr>)"
    "validate_project_config_path env_no_config_path = Inl (SystemExit 1)"
    by (simp_all add: env_no_config_def env_no_config_path_def example_env_def)
  have n: "''check'' \<notin> set [''init'', ''add'', ''clean'', ''sync'']"
    by simp
  have k: "command (example_namespace\<lparr>command := Some ''check''\<rparr>) = Some ''check''"
    by simp
  note f1 = config_error_is_fatal [of env_no_config True None]
  note f2 = config_error_is_fatal [of env_no_config_path True None]
  note f3 = config_error_is_fatal [of example_env True None]
  have a: "tach_check env_no_config True None =
       ([CallParseProjectConfig, StopSpinner, Print ''tach.yml not found''], SystemExit 1)"
    using f1 s by blast
  have b: "main env_no_config_path [''check''] = ([CallValidateProjectConfigPath], Raised (SystemExit 1))"
    using f2 s n by blast
  have c: "main env_no_config [''check''] =
       ([CallValidateProjectConfigPath, StartSpinner ''Scanning...'',
         CallParseProjectConfig, StopSpinner, Print ''tach.yml not found''], Raised (SystemExit 1))"
    using f1 s n k by blast
  have sp: "cli_exclude_paths (Some ''ci,build'') = Some [''ci'', ''build'']"
    by (simp add: cli_exclude_paths_def)
  have d: "CallCheck example_config (Some [''ci'', ''build'', ''tests'', ''docs'']) True
        \<in> set (fst (main example_env [''check'']))"
    using main_check [of example_env "''check''" "[]" "example_namespace\<lparr>command := Some ''check''\<rparr>" "()"]
      check_called [of example_env example_config "Some [''ci'', ''build'']" False] sp
    by (simp add: example_parse_args example_env_simps example_namespace_def merged_example
        example_config_simps)
  have e: "hd (fst (main example_env [''check''])) = CallValidateProjectConfigPath"
    using f3 d n by blast
  show ?thesis using a b c d e s n by simp
qed

subsection \<open>The empty command line and the setup commands\<close>

lemma tach_check_no_validation:
  "CallValidateProjectConfigPath \<notin> set (fst (tach_check e ex xs))"
  by (auto simp: tach_check_def tach_check_try_def Let_def
      split: sum.splits raised.splits if_splits prod.splits outcome.splits
      dest: print_errors_events dest!: print_extra_constraints_events)

lemma tach_init_no_validation:
  "CallValidateProjectConfigPath \<notin> set (fst (tach_init e depth xs))"
  by (auto simp: tach_init_def print_warnings_def split: sum.splits raised.splits if_splits)

lemma tach_sync_no_validation:
  "CallValidateProjectConfigPath \<notin> set (fst (tach_sync e prune xs))"
  by (auto simp: tach_sync_def split: sum.splits raised.splits)

lemma tach_add_no_validation:
  "CallValidateProjectConfigPath \<notin> set (fst (tach_add e paths tags))"
  by (auto simp: tach_add_def print_warnings_def split: sum.splits raised.splits if_splits)

lemma tach_clean_no_validation:
  "CallValidateProjectConfigPath \<notin> set (fst (tach_clean e force))"
  by (auto simp: tach_clean_def Let_def split: sum.splits option.splits if_splits)

lemma tach_install_no_validation:
  "CallValidateProjectConfigPath \<notin> set (fst (tach_install e path target))"
  by (auto simp: tach_install_def split: sum.splits raised.splits InstallTarget.splits if_splits)

lemma no_validation_tach_check:
  "tach_check e ex xs = (t, r) \<Longrightarrow> CallValidateProjectConfigPath \<in> set t \<Longrightarrow> False"
  using tach_check_no_validation [of e ex xs] by simp

lemma no_validation_tach_init:
  "tach_init e depth xs = (t, r) \<Longrightarrow> CallValidateProjectConfigPath \<in> set t \<Longrightarrow> False"
  using tach_init_no_validation [of e depth xs] by simp

lemma no_validation_tach_sync:
  "tach_sync e prune xs = (t, r) \<Longrightarrow> CallValidateProjectConfigPath \<in> set t \<Longrightarrow> False"
  using tach_sync_no_validation [of e prune xs] by simp

lemma no_validation_tach_add:
  "tach_add e paths tags = (t, r) \<Longrightarrow> CallValidateProjectConfigPath \<in> set t \<Longrightarrow> False"
  using tach_add_no_validation [of e paths tags] by simp

lemma no_validation_tach_clean:
  "tach_clean e force = (t, out) \<Longrightarrow> CallValidateProjectConfigPath \<in> set t \<Longrightarrow> False"
  using tach_clean_no_validation [of e force] by simp

lemma no_validation_tach_install:
  "tach_install e path target = (t, r) \<Longrightarrow> CallValidateProjectConfigPath \<in> set t \<Longrightarrow> False"
  using tach_install_no_validation [of e path target] by simp

lemma parse_arguments_setup:
  "a \<in> set [''init'', ''add'', ''clean'', ''sync''] \<Longrightarrow>
   fst (parse_arguments e (a # rest)) = []"
  by (auto simp: parse_arguments_def split: sum.splits)

lemma main_setup_no_validation:
  assumes "a \<in> set [''init'', ''add'', ''clean'', ''sync'']"
  shows "CallValidateProjectConfigPath \<notin> set (fst (main e (a # rest)))"
proof -
  obtain t r where p: "parse_arguments e (a # rest) = (t, r)"
    by (cases "parse_arguments e (a # rest)")
  with parse_arguments_setup [OF assms, of e rest] have t: "t = []"
    by simp
  show ?thesis
  proof (cases r)
    case (Inl x)
    with p t show ?thesis by (simp add: main_def)
  next
    case (Inr args)
    from Inr p t show ?thesis
      by (auto simp: main_def Let_def tach_clean_no_validation split: prod.splits
          dest: no_validation_tach_check no_validation_tach_init no_validation_tach_sync
            no_validation_tach_add no_validation_tach_clean no_validation_tach_install)
  qed
qed

text \<open>
  C9. On the empty argument list \<open>parse_arguments\<close> raises: whatever the parser does,
  nothing is returned, and when the parser returns a namespace the read of \<open>args[0]\<close>
  raises \<open>IndexError\<close>, which nothing catches, so that \<open>main\<close> prints no help and the
  process ends with status 1. On an argument list whose first word is \<open>init\<close>, \<open>add\<close>,
  \<open>clean\<close> or \<open>sync\<close>, the validation of the configuration path is not called, neither
  by \<open>parse_arguments\<close> nor later in \<open>main\<close>.
\<close>

theorem empty_args_raise_and_setup_skips_validation:
  "(\<exists>r. parse_arguments e [] = ([], Inl r) \<and> main e [] = ([], Raised r))
   \<and> (\<forall>ns. parse_args e [] = Inr ns \<longrightarrow>
         parse_arguments e [] = ([], Inl (Exception ''list index out of range'')) \<and>
         main e [] = ([], Raised (Exception ''list index out of range'')) \<and>
         exit_status (snd (main e [])) = 1)
   \<and> PrintHelp \<notin> set (fst (main e []))
   \<and> (\<forall>a rest. a \<in> set [''init'', ''add'', ''clean'', ''sync''] \<longrightarrow>
         CallValidateProjectConfigPath \<notin> set (fst (parse_arguments e (a # rest))) \<and>
         CallValidateProjectConfigPath \<notin> set (fst (main e (a # rest))))"
proof (intro conjI allI impI)
  show "\<exists>r. parse_arguments e [] = ([], Inl r) \<and> main e [] = ([], Raised r)"
    by (cases "parse_args e []") (simp_all add: parse_arguments_def main_def)
  then show "PrintHelp \<notin> set (fst (main e []))"
    by auto
next
  fix ns
  assume n: "parse_args e [] = Inr ns"
  then show "parse_arguments e [] = ([], Inl (Exception ''list index out of range''))"
    by (simp add: parse_arguments_def)
  from n show m: "main e [] = ([], Raised (Exception ''list index out of range''))"
    by (simp add: parse_arguments_def main_def)
  show "exit_status (snd (main e [])) = 1"
    unfolding m by simp
next
  fix a rest
  assume a: "a \<in> set [''init'', ''add'', ''clean'', ''sync'']"
  then show "CallValidateProjectConfigPath \<notin> set (fst (parse_arguments e (a # rest)))"
    by (simp only: parse_arguments_setup) simp
  from a show "CallValidateProjectConfigPath \<notin> set (fst (main e (a # rest)))"
    by (rule main_setup_no_validation)
qed

theorem empty_args_raise_and_setup_skips_validation_witness:
  "parse_args example_env [] = Inr (example_namespace\<lparr>command := None\<rparr>)
   \<and> main example_env [] = ([], Raised (Exception ''list index out of range''))
   \<and> exit_status (snd (main example_env [])) = 1
   \<and> ''sync'' \<in> set [''init'', ''add'', ''clean'', ''sync'']
   \<and> CallValidateProjectConfigPath \<notin> set (fst (parse_arguments example_env [''sync'']))
   \<and> CallValidateProjectConfigPath \<notin> set (fst (main example_env [''sync'']))
   \<and> CallValidateProjectConfigPath \<in> set (fst (main example_env [''check'']))"
proof -
  have p: "parse_args example_env [] = Inr (example_namespace\<lparr>command := None\<rparr>)"
    by (simp add: example_env_def)
  have s: "''sync'' \<in> set [''init'', ''add'', ''clean'', ''sync'']"
    by simp
  note f = empty_args_raise_and_setup_skips_validation [of example_env]
  have a: "main example_env [] = ([], Raised (Exception ''list index out of range''))
     \<and> exit_status (snd (main example_env [])) = 1"
    using f p by blast
  have b: "CallValidateProjectConfigPath \<notin> set (fst (parse_arguments example_env [''sync'']))
     \<and> CallValidateProjectConfigPath \<notin> set (fst (main example_env [''sync'']))"
    using f s by blast
  have c: "CallValidateProjectConfigPath \<in> set (fst (main example_env [''check'']))"
    using main_check [of example_env "''check''" "[]" "example_namespace\<lparr>command := Some ''check''\<rparr>" "()"]
    by (simp add: example_parse_args example_env_simps)
  show ?thesis using a b c p s by blast
qed

subsection \<open>The exclude list\<close>

lemma split_not_Nil: "split sep s \<noteq> []"
  by (induction s) (auto split: list.splits)

lemma join_split: "join [sep] (split sep s) = s"
proof (induction s)
  case Nil
  then show ?case by simp
next
  case (Cons c cs)
  obtain w ws where w: "split sep cs = w # ws"
    using split_not_Nil [of sep cs] by (cases "split sep cs") auto
  show ?case
  proof (cases "c = sep")
    case True
    with Cons w show ?thesis by simp
  next
    case False
    with Cons w show ?thesis by (cases ws) auto
  qed
qed

lemma split_pieces: "w \<in> set (split sep s) \<Longrightarrow> sep \<notin> set w"
proof (induction s arbitrary: w)
  case Nil
  then show ?case by simp
next
  case (Cons c cs)
  then show ?case
    by (auto split: if_splits list.splits)
qed

lemma length_split: "length (split sep s) = Suc (count_list s sep)"
proof (induction s)
  case Nil
  then show ?case by simp
next
  case (Cons c cs)
  then show ?case
    using split_not_Nil [of sep cs] by (auto split: list.splits)
qed

text \<open>
  C7. The exclude list of the command line is one string; when it is not empty it is split
  at every comma: the pieces hold no comma, there is one more piece than there are commas,
  and joining them with commas gives the string back. An absent or empty string gives no
  list. When the command line and the policy both give a list, the check receives the list
  of the command line followed by the policy's; when the command line gives none, the check
  receives the policy's value. From \<open>main\<close>, the check receives the list computed from the
  \<open>exclude\<close> argument in this way.
\<close>

theorem exclude_list_split_and_merged:
  "(\<forall>s. s \<noteq> [] \<longrightarrow>
      cli_exclude_paths (Some s) = Some (split CHR '','' s) \<and>
      join '','' (split CHR '','' s) = s \<and>
      (\<forall>w \<in> set (split CHR '','' s). CHR '','' \<notin> set w) \<and>
      length (split CHR '','' s) = Suc (count_list s CHR '',''))
   \<and> cli_exclude_paths None = None
   \<and> cli_exclude_paths (Some []) = None
   \<and> (\<forall>c cli pol. parse_project_config e = Inr c \<and> exclude c = Some pol \<longrightarrow>
        CallCheck c (Some (cli @ pol)) (exclude_hidden_paths c)
          \<in> set (fst (tach_check e ex (Some cli))) \<and>
        (\<forall>c' p h. CallCheck c' p h \<in> set (fst (tach_check e ex (Some cli))) \<longrightarrow>
           p = Some (cli @ pol)))
   \<and> (\<forall>c. parse_project_config e = Inr c \<longrightarrow>
        CallCheck c (exclude c) (exclude_hidden_paths c) \<in> set (fst (tach_check e ex None)) \<and>
        (\<forall>c' p h. CallCheck c' p h \<in> set (fst (tach_check e ex None)) \<longrightarrow> p = exclude c))
   \<and> (\<forall>a rest args u c. parse_args e (a # rest) = Inr args \<and>
        a \<notin> set [''init'', ''add'', ''clean'', ''sync''] \<and>
        validate_project_config_path e = Inr u \<and> command args = Some ''check'' \<and>
        parse_project_config e = Inr c \<longrightarrow>
        CallCheck c (merged_exclude_paths (cli_exclude_paths (arg_exclude args)) c)
            (exclude_hidden_paths c)
          \<in> set (fst (main e (a # rest))))"
proof (intro conjI allI impI ballI)
  fix s :: string
  assume "s \<noteq> []"
  then show "cli_exclude_paths (Some s) = Some (split CHR '','' s)"
    by (simp add: cli_exclude_paths_def)
  show "join '','' (split CHR '','' s) = s"
    by (rule join_split)
  show "length (split CHR '','' s) = Suc (count_list s CHR '','')"
    by (rule length_split)
  fix w
  assume "w \<in> set (split CHR '','' s)"
  then show "CHR '','' \<notin> set w"
    by (rule split_pieces)
next
  show "cli_exclude_paths None = None"
    by (simp add: cli_exclude_paths_def)
  show "cli_exclude_paths (Some []) = None"
    by (simp add: cli_exclude_paths_def)
next
  fix c cli pol
  assume h: "parse_project_config e = Inr c \<and> exclude c = Some pol"
  then have m: "merged_exclude_paths (Some cli) c = Some (cli @ pol)"
    by (simp add: merged_exclude_paths_def)
  from h check_called [of e c "Some cli" ex] m
  show "CallCheck c (Some (cli @ pol)) (exclude_hidden_paths c)
          \<in> set (fst (tach_check e ex (Some cli)))"
    by simp
  fix c' p h'
  assume "CallCheck c' p h' \<in> set (fst (tach_check e ex (Some cli)))"
  from check_called_cases [OF this] h m show "p = Some (cli @ pol)"
    by auto
next
  fix c
  assume h: "parse_project_config e = Inr c"
  have m: "merged_exclude_paths None c = exclude c"
    by (simp add: merged_exclude_paths_def)
  from check_called [OF h, of None ex] m
  show "CallCheck c (exclude c) (exclude_hidden_paths c) \<in> set (fst (tach_check e ex None))"
    by simp
  fix c' p h'
  assume "CallCheck c' p h' \<in> set (fst (tach_check e ex None))"
  from check_called_cases [OF this] h m show "p = exclude c"
    by auto
next
  fix a rest args u c
  assume h: "parse_args e (a # rest) = Inr args \<and>
        a \<notin> set [''init'', ''add'', ''clean'', ''sync''] \<and>
        validate_project_config_path e = Inr u \<and> command args = Some ''check'' \<and>
        parse_project_config e = Inr c"
  then have "main e (a # rest) =
     ([CallValidateProjectConfigPath, StartSpinner ''Scanning...'']
        @ fst (tach_check e (arg_exact args) (cli_exclude_paths (arg_exclude args))),
      Raised (snd (tach_check e (arg_exact args) (cli_exclude_paths (arg_exclude args)))))"
    using main_check [of e a rest args u] by blast
  moreover from h have "CallCheck c (merged_exclude_paths (cli_exclude_paths (arg_exclude args)) c)
            (exclude_hidden_paths c)
      \<in> set (fst (tach_check e (arg_exact args) (cli_exclude_paths (arg_exclude args))))"
    by (simp add: check_called)
  ultimately show "CallCheck c (merged_exclude_paths (cli_exclude_paths (arg_exclude args)) c)
            (exclude_hidden_paths c)
          \<in> set (fst (main e (a # rest)))"
    by simp
qed

theorem exclude_list_split_and_merged_witness:
  "''ci,build'' \<noteq> []
   \<and> cli_exclude_paths (Some ''ci,build'') = Some [''ci'', ''build'']
   \<and> parse_project_config example_env = Inr example_config
   \<and> exclude example_config = Some [''tests'', ''docs'']
   \<and> CallCheck example_config (Some [''ci'', ''build'', ''tests'', ''docs'']) True
        \<in> set (fst (tach_check example_env False (Some [''ci'', ''build''])))
   \<and> CallCheck example_config (Some [''tests'', ''docs'']) True
        \<in> set (fst (tach_check example_env False None))
   \<and> parse_args example_env [''check''] = Inr (example_namespace\<lparr>command := Some ''check''\<rparr>)
   \<and> ''check'' \<notin> set [''init'', ''add'', ''clean'', ''sync'']
   \<and> validate_project_config_path example_env = Inr ()
   \<and> CallCheck example_config (Some [''ci'', ''build'', ''tests'', ''docs'']) True
        \<in> set (fst (main example_env [''check'']))"
proof -
  note f = exclude_list_split_and_merged [of example_env False]
  have n: "''ci,build'' \<noteq> []"
    by simp
  have sp: "split CHR '','' ''ci,build'' = [''ci'', ''build'']"
    by simp
  have a: "cli_exclude_paths (Some ''ci,build'') = Some [''ci'', ''build'']"
    using f n sp by metis
  have p: "parse_project_config example_env = Inr example_config \<and>
      exclude example_config = Some [''tests'', ''docs'']"
    by (simp add: example_env_simps example_config_simps)
  have b: "CallCheck example_config (Some ([''ci'', ''build''] @ [''tests'', ''docs'']))
      (exclude_hidden_paths example_config)
        \<in> set (fst (tach_check example_env False (Some [''ci'', ''build''])))"
    using f p by blast
  have c: "CallCheck example_config (exclude example_config) (exclude_hidden_paths example_config)
        \<in> set (fst (tach_check example_env False None))"
    using f p by blast
  have q: "parse_args example_env [''check''] = Inr (example_namespace\<lparr>command := Some ''check''\<rparr>) \<and>
        ''check'' \<notin> set [''init'', ''add'', ''clean'', ''sync''] \<and>
        validate_project_config_path example_env = Inr () \<and>
        command (example_namespace\<lparr>command := Some ''check''\<rparr>) = Some ''check'' \<and>
        parse_project_config example_env = Inr example_config"
    by (simp add: example_parse_args example_env_simps)
  have d: "CallCheck example_config
       (merged_exclude_paths (cli_exclude_paths (arg_exclude (example_namespace\<lparr>command := Some ''check''\<rparr>)))
          example_config)
       (exclude_hidden_paths example_config)
        \<in> set (fst (main example_env [''check'']))"
    using f q by blast
  have ae: "arg_exclude (example_namespace\<lparr>command := Some ''check''\<rparr>) = Some ''ci,build''"
    by (simp add: example_namespace_def)
  show ?thesis
    using a b c d q n
    by (simp add: ae example_config_simps merged_example)
qed

subsection \<open>The clean command\<close>

lemma tach_clean_declined:
  "find_project_config_root e = Inr found \<Longrightarrow>
   input e (confirm_prompt e) = Inr response \<Longrightarrow>
   lower response \<notin> set [''y'', ''yes''] \<Longrightarrow>
   tach_clean e False =
     ([Print (WARNING e @ ''This will DELETE all existing configuration for '' @ TOOL_NAME e
              @ ''.'' @ ENDC e),
       CallFindProjectConfigRoot,
       Print (WARNING e @ ''Deletion will occur for project with root: ''
              @ [CHR 0x27] @ abspath e (root_or_dot found) @ [CHR 0x27] @ ENDC e),
       CallInput (confirm_prompt e),
       Print (OKCYAN e @ ''Not deleting configuration.'' @ ENDC e)], Returned)"
  by (simp add: tach_clean_def Let_def)

lemma tach_clean_called_cases:
  "CallCleanProject p \<in> set (fst (tach_clean e force)) \<Longrightarrow>
   (\<exists>found. find_project_config_root e = Inr found \<and> p = root_or_dot found) \<and>
   (force \<or> (\<exists>response. input e (confirm_prompt e) = Inr response \<and>
                lower response \<in> set [''y'', ''yes'']))"
  by (auto simp: tach_clean_def Let_def split: sum.splits if_splits)

lemma tach_clean_confirmed:
  "find_project_config_root e = Inr found \<Longrightarrow>
   input e (confirm_prompt e) = Inr response \<Longrightarrow>
   lower response \<in> set [''y'', ''yes''] \<Longrightarrow>
   CallCleanProject (root_or_dot found) \<in> set (fst (tach_clean e False))"
  by (auto simp: tach_clean_def Let_def split: sum.splits)

lemma tach_clean_forced:
  "find_project_config_root e = Inr found \<Longrightarrow>
   CallCleanProject (root_or_dot found) \<in> set (fst (tach_clean e True)) \<and>
   (\<forall>p. CallInput p \<notin> set (fst (tach_clean e True)))"
  by (auto simp: tach_clean_def Let_def split: sum.splits)

text \<open>
  C10. Without \<open>force\<close>, \<open>clean_project\<close> is called exactly when the answer to the prompt,
  in lower case, is \<open>y\<close> or \<open>yes\<close>. For every other answer, the empty one included, the
  run consists of the two warnings, the lookup of the root, the prompt and the message that
  nothing is deleted, and returns; when reading the answer raises, \<open>clean_project\<close> is not
  called either. With \<open>force\<close>, \<open>clean_project\<close> is called and there is no prompt.
\<close>

theorem clean_needs_confirmation:
  "(\<forall>found response. find_project_config_root e = Inr found \<and>
        input e (confirm_prompt e) = Inr response \<longrightarrow>
        (CallCleanProject (root_or_dot found) \<in> set (fst (tach_clean e False))
           \<longleftrightarrow> lower response = ''y'' \<or> lower response = ''yes'') \<and>
        (lower response \<noteq> ''y'' \<and> lower response \<noteq> ''yes'' \<longrightarrow>
           (\<forall>p. CallCleanProject p \<notin> set (fst (tach_clean e False))) \<and>
           tach_clean e False =
             ([Print (WARNING e @ ''This will DELETE all existing configuration for '' @ TOOL_NAME e
                      @ ''.'' @ ENDC e),
               CallFindProjectConfigRoot,
               Print (WARNING e @ ''Deletion will occur for project with root: ''
                      @ [CHR 0x27] @ abspath e (root_or_dot found) @ [CHR 0x27] @ ENDC e),
               CallInput (confirm_prompt e),
               Print (OKCYAN e @ ''Not deleting configuration.'' @ ENDC e)], Returned)))
   \<and> (\<forall>r. input e (confirm_prompt e) = Inl r \<longrightarrow>
         (\<forall>p. CallCleanProject p \<notin> set (fst (tach_clean e False))))
   \<and> (\<forall>found. find_project_config_root e = Inr found \<longrightarrow>
         CallCleanProject (root_or_dot found) \<in> set (fst (tach_clean e True)) \<and>
         (\<forall>p. CallInput p \<notin> set (fst (tach_clean e True))))
   \<and> lower [] \<noteq> ''y'' \<and> lower [] \<noteq> ''yes''"
proof (intro conjI allI impI)
  fix found response
  assume h: "find_project_config_root e = Inr found \<and> input e (confirm_prompt e) = Inr response"
  show "CallCleanProject (root_or_dot found) \<in> set (fst (tach_clean e False))
           \<longleftrightarrow> lower response = ''y'' \<or> lower response = ''yes''"
  proof
    assume "CallCleanProject (root_or_dot found) \<in> set (fst (tach_clean e False))"
    from tach_clean_called_cases [OF this] h
    show "lower response = ''y'' \<or> lower response = ''yes''"
      by auto
  next
    assume "lower response = ''y'' \<or> lower response = ''yes''"
    then have "lower response \<in> set [''y'', ''yes'']"
      by auto
    with h show "CallCleanProject (root_or_dot found) \<in> set (fst (tach_clean e False))"
      using tach_clean_confirmed [of e found response] by blast
  qed
  assume n: "lower response \<noteq> ''y'' \<and> lower response \<noteq> ''yes''"
  then have n': "lower response \<notin> set [''y'', ''yes'']"
    by simp
  from h n' show "tach_clean e False =
             ([Print (WARNING e @ ''This will DELETE all existing configuration for '' @ TOOL_NAME e
                      @ ''.'' @ ENDC e),
               CallFindProjectConfigRoot,
               Print (WARNING e @ ''Deletion will occur for project with root: ''
                      @ [CHR 0x27] @ abspath e (root_or_dot found) @ [CHR 0x27] @ ENDC e),
               CallInput (confirm_prompt e),
               Print (OKCYAN e @ ''Not deleting configuration.'' @ ENDC e)], Returned)"
    using tach_clean_declined [of e found response] by blast
  fix p
  show "CallCleanProject p \<notin> set (fst (tach_clean e False))"
  proof
    assume "CallCleanProject p \<in> set (fst (tach_clean e False))"
    from tach_clean_called_cases [OF this] h n show False
      by auto
  qed
next
  fix r p
  assume i: "input e (confirm_prompt e) = Inl r"
  show "CallCleanProject p \<notin> set (fst (tach_clean e False))"
  proof
    assume "CallCleanProject p \<in> set (fst (tach_clean e False))"
    from tach_clean_called_cases [OF this] i show False
      by auto
  qed
next
  fix found
  assume f: "find_project_config_root e = Inr found"
  from tach_clean_forced [OF f]
  show "CallCleanProject (root_or_dot found) \<in> set (fst (tach_clean e True))"
    by blast
  fix p
  from tach_clean_forced [OF f]
  show "CallInput p \<notin> set (fst (tach_clean e True))"
    by blast
next
  show "lower [] \<noteq> ''y''" and "lower [] \<noteq> ''yes''"
    by (simp_all add: lower_def)
qed

lemma env_answer_simps:
  "find_project_config_root (env_answer response) = Inr None"
  "input (env_answer response) p = Inr response"
  by (simp_all add: env_answer_def example_env_def)

theorem clean_needs_confirmation_witness:
  "find_project_config_root (env_answer ''Yes'') = Inr None
   \<and> input (env_answer ''Yes'') (confirm_prompt (env_answer ''Yes'')) = Inr ''Yes''
   \<and> lower ''Yes'' = ''yes''
   \<and> CallCleanProject ''.'' \<in> set (fst (tach_clean (env_answer ''Yes'') False))
   \<and> input (env_answer ''no'') (confirm_prompt (env_answer ''no'')) = Inr ''no''
   \<and> lower ''no'' \<noteq> ''y'' \<and> lower ''no'' \<noteq> ''yes''
   \<and> (\<forall>p. CallCleanProject p \<notin> set (fst (tach_clean (env_answer ''no'') False)))
   \<and> (\<forall>p. CallCleanProject p \<notin> set (fst (tach_clean (env_answer []) False)))
   \<and> input env_no_answer (confirm_prompt env_no_answer) = Inl (Exception ''EOF when reading a line'')
   \<and> (\<forall>p. CallCleanProject p \<notin> set (fst (tach_clean env_no_answer False)))
   \<and> CallCleanProject ''.'' \<in> set (fst (tach_clean (env_answer ''no'') True))
   \<and> (\<forall>p. CallInput p \<notin> set (fst (tach_clean (env_answer ''no'') True)))"
proof -
  have l1: "lower ''Yes'' = ''yes''"
    by code_simp
  have l2: "lower ''no'' = ''no''"
    by code_simp
  have l3: "lower [] = []"
    by (simp add: lower_def)
  note l = l1 l2 l3
  have r: "root_or_dot None = ''.''"
    by (simp add: root_or_dot_def)
  have i: "input env_no_answer (confirm_prompt env_no_answer) = Inl (Exception ''EOF when reading a line'')"
    by (simp add: env_no_answer_def example_env_def)
  have a: "CallCleanProject ''.'' \<in> set (fst (tach_clean (env_answer ''Yes'') False))"
    using clean_needs_confirmation [of "env_answer ''Yes''"] l r
    by (simp add: env_answer_simps)
  have b: "\<forall>p. CallCleanProject p \<notin> set (fst (tach_clean (env_answer ''no'') False))"
    using clean_needs_confirmation [of "env_answer ''no''"] l
    by (simp add: env_answer_simps)
  have c: "\<forall>p. CallCleanProject p \<notin> set (fst (tach_clean (env_answer []) False))"
    using clean_needs_confirmation [of "env_answer []"] l
    by (simp add: env_answer_simps)
  have d: "\<forall>p. CallCleanProject p \<notin> set (fst (tach_clean env_no_answer False))"
    using clean_needs_confirmation [of env_no_answer] i
    by blast
  have f: "CallCleanProject ''.'' \<in> set (fst (tach_clean (env_answer ''no'') True))
     \<and> (\<forall>p. CallInput p \<notin> set (fst (tach_clean (env_answer ''no'') True)))"
    using clean_needs_confirmation [of "env_answer ''no''"] r
    by (simp add: env_answer_simps)
  show ?thesis
    using a b c d f i l by (simp add: env_answer_simps)
qed

subsection \<open>The order of the report\<close>








subsection \<open>The text of an error\<close>

lemma prepend_prepend: "prepend a (prepend b x) = prepend (a @ b) x"
  by (cases x) simp_all

lemma prepend_Nil: "prepend [] x = x"
  by (cases x) simp_all

lemma format_plain:
  "no_braces p \<Longrightarrow> format e (p @ t) m = prepend p (format e t m)"
proof (induction p)
  case Nil
  then show ?case by (simp add: prepend_Nil)
next
  case (Cons c p)
  then have "c \<noteq> CHR ''{''" and "c \<noteq> CHR ''}''" and "no_braces p"
    by (auto simp: no_braces_def)
  with Cons.IH show ?case
    by (simp add: prepend_prepend)
qed

lemma format_message_field:
  "format e (''{message}'' @ t) m = prepend m (format e t m)"
  by (simp add: plain_char_def)

lemma format_template:
  assumes "no_braces a" and "no_braces b"
  shows "format e (a @ ''{message}'' @ b) m = Inr (a @ m @ b)"
proof -
  have "format e b m = Inr b"
    using format_plain [OF assms(2), of e "[]" m] by simp
  then show ?thesis
    by (simp only: format_plain [OF assms(1)] format_message_field prepend.simps)
qed

lemma no_braces_append: "no_braces (a @ b) \<longleftrightarrow> no_braces a \<and> no_braces b"
  by (auto simp: no_braces_def)

lemma digit_char_no_brace:
  assumes "d < 10"
  shows "digit_char d \<noteq> CHR ''{''" and "digit_char d \<noteq> CHR ''}''"
proof -
  from assms have o: "of_char (digit_char d) = 48 + d"
    by (simp add: digit_char_def)
  show "digit_char d \<noteq> CHR ''{''"
  proof
    assume "digit_char d = CHR ''{''"
    then have "of_char (digit_char d) = (of_char CHR ''{'' :: nat)"
      by simp
    with o assms show False by simp
  qed
  show "digit_char d \<noteq> CHR ''}''"
  proof
    assume "digit_char d = CHR ''}''"
    then have "of_char (digit_char d) = (of_char CHR ''}'' :: nat)"
      by simp
    with o assms show False by simp
  qed
qed

lemma no_braces_str_nat: "no_braces (str_nat n)"
proof (induction n rule: str_nat.induct)
  case (1 n)
  show ?case
  proof (cases "n < 10")
    case True
    with digit_char_no_brace [of n] show ?thesis
      by (auto simp: str_nat.simps [of n] no_braces_def)
  next
    case False
    have "n mod 10 < 10"
      by simp
    with digit_char_no_brace [of "n mod 10"] have "no_braces [digit_char (n mod 10)]"
      by (auto simp: no_braces_def)
    with False 1 show ?thesis
      by (simp add: str_nat.simps [of n] no_braces_append)
  qed
qed

lemma no_braces_str_int: "no_braces (str_int i)"
  using no_braces_str_nat [of "nat i"] no_braces_str_nat [of "nat (- i)"]
  by (simp add: str_int_def no_braces_def)

lemma no_braces_location:
  assumes "no_braces fp" and "no_braces (abspath e fp)"
  shows "no_braces (create_clickable_link e fp line)"
proof -
  have l: "no_braces (link e fp line)"
    using assms(2) no_braces_str_int
    by (cases line; cases "detect_environment e")
      (simp_all add: link_def Let_def no_braces_append, simp_all add: no_braces_def)
  have d: "no_braces (display_file_path e fp line)"
    using assms(1) no_braces_str_int
    by (cases line)
      (simp_all add: display_file_path_def no_braces_append, simp_all add: no_braces_def)
  have c: "no_braces ESC" "no_braces BACKSLASH" "no_braces '']8;;''"
    by code_simp+
  from l d c show ?thesis
    by (simp only: create_clickable_link_def no_braces_append simp_thms)
qed

lemma format_error_template:
  assumes "no_braces (FAIL e)" and "no_braces (ENDC e)" and "no_braces (WARNING e)"
    and "no_braces loc"
  shows "format e (error_template e loc) m = Inr (filled_template e loc m)"
proof -
  have c: "no_braces CROSS_MARK" "no_braces '' ''" "no_braces '': ''"
    by code_simp+
  have a: "no_braces (CROSS_MARK @ '' '' @ FAIL e @ loc @ ENDC e @ WARNING e @ '': '')"
    using assms c by (simp only: no_braces_append simp_thms)
  have b: "no_braces ('' '' @ ENDC e)"
    using assms c by (simp only: no_braces_append simp_thms)
  have "error_template e loc
      = (CROSS_MARK @ '' '' @ FAIL e @ loc @ ENDC e @ WARNING e @ '': '') @ ''{message}''
          @ ('' '' @ ENDC e)"
    by (simp add: error_template_def)
  then have "format e (error_template e loc) m
      = Inr ((CROSS_MARK @ '' '' @ FAIL e @ loc @ ENDC e @ WARNING e @ '': '') @ m
          @ ('' '' @ ENDC e))"
    by (simp only: format_template [OF a b])
  then show ?thesis
    by (simp add: filled_template_def)
qed

lemma build_error_message_brace_free:
  assumes "brace_free e err"
  shows "build_error_message e err =
    Inr (filled_template e (create_clickable_link e (file_path err) (line_number err))
      (if exception_message (error_info err) \<noteq> [] then exception_message (error_info err)
       else if \<not> is_tag_error (error_info err) then ''Unexpected error''
       else tag_error_message e err))"
proof -
  from assms have "no_braces (create_clickable_link e (file_path err) (line_number err))"
    by (simp add: brace_free_def no_braces_location)
  with assms show ?thesis
    by (simp add: build_error_message_def Let_def brace_free_def format_error_template)
qed

lemma sublist_after: "sublist x y \<Longrightarrow> sublist x (p @ y)"
  by (metis sublist_append)

lemma sublist_before: "sublist x y \<Longrightarrow> sublist x (y @ s)"
  by (metis sublist_append)

lemma display_file_path_has_path: "sublist fp (display_file_path e fp line)"
  by (simp add: display_file_path_def split: option.splits)

lemma link_has_line:
  assumes "detect_environment e \<noteq> UNKNOWN"
  shows "sublist (str_int n) (link e fp (Some n))"
proof -
  from assms have
    "link e fp (Some n) = ''file://'' @ abspath e fp @ '':'' @ str_int n \<or>
     link e fp (Some n) = ''vscode://file/'' @ abspath e fp @ '':'' @ str_int n"
    by (cases "detect_environment e") (simp_all add: link_def Let_def)
  then show ?thesis
  proof
    assume l: "link e fp (Some n) = ''file://'' @ abspath e fp @ '':'' @ str_int n"
    show ?thesis
      unfolding l
      by (intro sublist_after [of _ _ "''file://''"] sublist_after [of _ _ "abspath e fp"]
          sublist_after [of _ _ "'':''"]) simp
  next
    assume l: "link e fp (Some n) = ''vscode://file/'' @ abspath e fp @ '':'' @ str_int n"
    show ?thesis
      unfolding l
      by (intro sublist_after [of _ _ "''vscode://file/''"] sublist_after [of _ _ "abspath e fp"]
          sublist_after [of _ _ "'':''"]) simp
  qed
qed

lemma link_unknown:
  "detect_environment e = UNKNOWN \<Longrightarrow>
   create_clickable_link e fp line = create_clickable_link e fp None"
  by (simp add: create_clickable_link_def link_def display_file_path_def Let_def
      split: option.splits)

lemma location_has_path: "sublist fp (create_clickable_link e fp line)"
  unfolding create_clickable_link_def
  by (intro sublist_after sublist_before [of _ "display_file_path e fp line"]
      display_file_path_has_path)

lemma location_has_line:
  "detect_environment e \<noteq> UNKNOWN \<Longrightarrow> sublist (str_int n) (create_clickable_link e fp (Some n))"
  unfolding create_clickable_link_def
  by (intro sublist_after [of _ _ ESC] sublist_after [of _ _ "'']8;;''"]
      sublist_before [of _ "link e fp (Some n)"] link_has_line)

lemma template_has_location:
  "sublist x loc \<Longrightarrow> sublist x (filled_template e loc m)"
  unfolding filled_template_def
  by (intro sublist_after [of _ _ CROSS_MARK] sublist_after [of _ _ "'' ''"]
      sublist_after [of _ _ "FAIL e"] sublist_before [of _ loc])

lemma template_has_message:
  "sublist x m \<Longrightarrow> sublist x (filled_template e loc m)"
  unfolding filled_template_def
  by (intro sublist_after [of _ _ CROSS_MARK] sublist_after [of _ _ "'' ''"]
      sublist_after [of _ _ "FAIL e"] sublist_after [of _ _ loc] sublist_after [of _ _ "ENDC e"]
      sublist_after [of _ _ "WARNING e"] sublist_after [of _ _ "'': ''"] sublist_before [of _ m])

lemma tag_error_message_parts:
  "sublist (import_mod_path err) (tag_error_message e err)"
  "sublist (str_list e (source_tags (error_info err))) (tag_error_message e err)"
  "sublist (str_list e (invalid_tags (error_info err))) (tag_error_message e err)"
proof -
  show "sublist (import_mod_path err) (tag_error_message e err)"
    unfolding tag_error_message_def
    by (intro sublist_after [of _ _ "''Cannot import ''"] sublist_after [of _ _ "[CHR 0x27]"]
        sublist_before [of _ "import_mod_path err"]) simp
  show "sublist (str_list e (source_tags (error_info err))) (tag_error_message e err)"
    unfolding tag_error_message_def
    by (intro sublist_after [of _ _ "''Cannot import ''"] sublist_after [of _ _ "[CHR 0x27]"]
        sublist_after [of _ _ "import_mod_path err"] sublist_after [of _ _ "''. ''"]
        sublist_after [of _ _ "''Tags ''"]
        sublist_before [of _ "str_list e (source_tags (error_info err))"]) simp
  show "sublist (str_list e (invalid_tags (error_info err))) (tag_error_message e err)"
    unfolding tag_error_message_def
    by (intro sublist_after [of _ _ "''Cannot import ''"] sublist_after [of _ _ "[CHR 0x27]"]
        sublist_after [of _ _ "import_mod_path err"] sublist_after [of _ _ "''. ''"]
        sublist_after [of _ _ "''Tags ''"]
        sublist_after [of _ _ "str_list e (source_tags (error_info err))"]
        sublist_after [of _ _ "'' cannot depend on ''"]
        sublist_before [of _ "str_list e (invalid_tags (error_info err))"]) simp
qed


lemma example_brace_free:
  "brace_free example_env example_error"
  "brace_free example_env second_error"
  "brace_free example_env unexpected_error"
  "brace_free env_vscode example_error"
  by code_simp+



text \<open>
  C4, as the claim states it, fails: in a terminal that is neither JetBrains nor VS Code the
  message of a tag error at line 7 does not hold the line number.
\<close>

theorem error_message_line_number_counterexample:
  "is_tag_error (error_info example_error)
   \<and> exception_message (error_info example_error) = []
   \<and> line_number example_error = Some 7
   \<and> build_error_message example_env example_error = Inr example_text
   \<and> \<not> sublist (str_int 7) example_text"
proof -
  have "build_error_message example_env example_error = Inr example_text"
    by code_simp
  moreover have "\<not> sublist (str_int 7) example_text"
    by code_simp
  ultimately show ?thesis
    by (simp add: example_error_def)
qed

text \<open>
  C4, amended. For an error whose file path and absolute path hold no brace (nor do the
  colours), the message is built and holds the file path. It holds the line number when
  the terminal is JetBrains or VS Code; in any other terminal the message does not depend
  on the line number. When the exception message is not empty the text shown is that
  message, whatever the tags are; when it is empty and the error is not a tag error the
  text is \<open>Unexpected error\<close>; when it is empty and the error is a tag error the message
  holds the imported module path, the source tags and the invalid tags.
\<close>

theorem error_message_contents:
  "brace_free e err \<longrightarrow>
   (\<exists>report. build_error_message e err = Inr report
      \<and> sublist (file_path err) report
      \<and> (\<forall>n. line_number err = Some n \<and> detect_environment e \<noteq> UNKNOWN \<longrightarrow>
            sublist (str_int n) report)
      \<and> (detect_environment e = UNKNOWN \<longrightarrow>
            build_error_message e (err\<lparr>line_number := None\<rparr>) = Inr report)
      \<and> (exception_message (error_info err) \<noteq> [] \<longrightarrow>
            report =
              filled_template e (create_clickable_link e (file_path err) (line_number err))
                (exception_message (error_info err)) \<and>
            sublist (exception_message (error_info err)) report)
      \<and> (exception_message (error_info err) = [] \<and> \<not> is_tag_error (error_info err) \<longrightarrow>
            report =
              filled_template e (create_clickable_link e (file_path err) (line_number err))
                ''Unexpected error'' \<and>
            sublist ''Unexpected error'' report)
      \<and> (exception_message (error_info err) = [] \<and> is_tag_error (error_info err) \<longrightarrow>
            sublist (import_mod_path err) report \<and>
            sublist (str_list e (source_tags (error_info err))) report \<and>
            sublist (str_list e (invalid_tags (error_info err))) report))"
proof
  assume bf: "brace_free e err"
  define loc where "loc = create_clickable_link e (file_path err) (line_number err)"
  define shown where "shown =
      (if exception_message (error_info err) \<noteq> [] then exception_message (error_info err)
       else if \<not> is_tag_error (error_info err) then ''Unexpected error''
       else tag_error_message e err)"
  define report where "report = filled_template e loc shown"
  have r: "build_error_message e err = Inr report"
    using build_error_message_brace_free [OF bf] by (simp add: report_def loc_def shown_def)
  have p: "sublist (file_path err) report"
    unfolding report_def loc_def by (rule template_has_location) (rule location_has_path)
  have l: "sublist (str_int n) report"
    if "line_number err = Some n \<and> detect_environment e \<noteq> UNKNOWN" for n
    unfolding report_def loc_def using that
    by (simp add: template_has_location location_has_line)
  have u: "build_error_message e (err\<lparr>line_number := None\<rparr>) = Inr report"
    if "detect_environment e = UNKNOWN"
  proof -
    from bf have "brace_free e (err\<lparr>line_number := None\<rparr>)"
      by (simp add: brace_free_def)
    from build_error_message_brace_free [OF this] link_unknown [OF that, of "file_path err" "line_number err"]
    show ?thesis
      by (simp add: report_def loc_def shown_def tag_error_message_def)
  qed
  have x: "report = filled_template e loc (exception_message (error_info err))
      \<and> sublist (exception_message (error_info err)) report"
    if "exception_message (error_info err) \<noteq> []"
    using that by (simp add: report_def shown_def template_has_message)
  have y: "report = filled_template e loc ''Unexpected error''
      \<and> sublist ''Unexpected error'' report"
    if "exception_message (error_info err) = [] \<and> \<not> is_tag_error (error_info err)"
  proof -
    from that have "report = filled_template e loc ''Unexpected error''"
      by (simp add: report_def shown_def)
    moreover have "sublist ''Unexpected error'' (filled_template e loc ''Unexpected error'')"
      by (rule template_has_message) (rule sublist_order.order_refl)
    ultimately show ?thesis by simp
  qed
  have z: "sublist (import_mod_path err) report \<and>
      sublist (str_list e (source_tags (error_info err))) report \<and>
      sublist (str_list e (invalid_tags (error_info err))) report"
    if "exception_message (error_info err) = [] \<and> is_tag_error (error_info err)"
  proof -
    from that have "report = filled_template e loc (tag_error_message e err)"
      by (simp add: report_def shown_def)
    then show ?thesis
      by (simp add: template_has_message tag_error_message_parts)
  qed
  from r p l u x y z
  show "\<exists>report. build_error_message e err = Inr report
      \<and> sublist (file_path err) report
      \<and> (\<forall>n. line_number err = Some n \<and> detect_environment e \<noteq> UNKNOWN \<longrightarrow>
            sublist (str_int n) report)
      \<and> (detect_environment e = UNKNOWN \<longrightarrow>
            build_error_message e (err\<lparr>line_number := None\<rparr>) = Inr report)
      \<and> (exception_message (error_info err) \<noteq> [] \<longrightarrow>
            report =
              filled_template e (create_clickable_link e (file_path err) (line_number err))
                (exception_message (error_info err)) \<and>
            sublist (exception_message (error_info err)) report)
      \<and> (exception_message (error_info err) = [] \<and> \<not> is_tag_error (error_info err) \<longrightarrow>
            report =
              filled_template e (create_clickable_link e (file_path err) (line_number err))
                ''Unexpected error'' \<and>
            sublist ''Unexpected error'' report)
      \<and> (exception_message (error_info err) = [] \<and> is_tag_error (error_info err) \<longrightarrow>
            sublist (import_mod_path err) report \<and>
            sublist (str_list e (source_tags (error_info err))) report \<and>
            sublist (str_list e (invalid_tags (error_info err))) report)"
    unfolding loc_def by blast
qed

lemma detect_examples:
  "detect_environment example_env = UNKNOWN"
  "detect_environment env_vscode = VSCODE"
  by code_simp+

theorem error_message_contents_witness:
  "brace_free env_vscode example_error
   \<and> line_number example_error = Some 7
   \<and> detect_environment env_vscode \<noteq> UNKNOWN
   \<and> (\<exists>report. build_error_message env_vscode example_error = Inr report \<and>
         sublist (str_int 7) report)
   \<and> brace_free example_env example_error
   \<and> detect_environment example_env = UNKNOWN
   \<and> build_error_message example_env (example_error\<lparr>line_number := None\<rparr>)
        = build_error_message example_env example_error
   \<and> brace_free example_env second_error
   \<and> exception_message (error_info second_error) \<noteq> []
   \<and> (\<exists>report. build_error_message example_env second_error = Inr report \<and>
         sublist ''unparsable'' report)
   \<and> brace_free example_env unexpected_error
   \<and> exception_message (error_info unexpected_error) = []
   \<and> \<not> is_tag_error (error_info unexpected_error)
   \<and> (\<exists>report. build_error_message example_env unexpected_error = Inr report \<and>
         sublist ''Unexpected error'' report)
   \<and> exception_message (error_info example_error) = []
   \<and> is_tag_error (error_info example_error)
   \<and> (\<exists>report. build_error_message example_env example_error = Inr report \<and>
         sublist (file_path example_error) report \<and>
         sublist ''api.views'' report \<and>
         sublist (str_list example_env [''low'']) report \<and>
         sublist (str_list example_env [''high'']) report)"
proof -
  have x: "line_number example_error = Some 7"
    "exception_message (error_info second_error) = ''unparsable''"
    "exception_message (error_info unexpected_error) = []"
    "\<not> is_tag_error (error_info unexpected_error)"
    "exception_message (error_info example_error) = []"
    "is_tag_error (error_info example_error)"
    "import_mod_path example_error = ''api.views''"
    "source_tags (error_info example_error) = [''low'']"
    "invalid_tags (error_info example_error) = [''high'']"
    by (simp_all add: example_error_def second_error_def unexpected_error_def)
  have n: "detect_environment env_vscode \<noteq> UNKNOWN"
    by (simp add: detect_examples)
  note t1 = error_message_contents [of env_vscode example_error, rule_format,
      OF example_brace_free(4)]
  note t2 = error_message_contents [of example_env example_error, rule_format,
      OF example_brace_free(1)]
  note t3 = error_message_contents [of example_env second_error, rule_format,
      OF example_brace_free(2)]
  note t4 = error_message_contents [of example_env unexpected_error, rule_format,
      OF example_brace_free(3)]
  from t1 x(1) n have a: "\<exists>report. build_error_message env_vscode example_error = Inr report \<and>
         sublist (str_int 7) report"
    by blast
  from t2 detect_examples(1) have b: "build_error_message example_env (example_error\<lparr>line_number := None\<rparr>)
        = build_error_message example_env example_error"
    by auto
  from t3 have "\<exists>report. build_error_message example_env second_error = Inr report \<and>
      (exception_message (error_info second_error) \<noteq> [] \<longrightarrow>
         sublist (exception_message (error_info second_error)) report)"
    by blast
  then have c: "\<exists>report. build_error_message example_env second_error = Inr report \<and>
         sublist ''unparsable'' report"
    by (simp add: x)
  from t4 x(3,4) have d: "\<exists>report. build_error_message example_env unexpected_error = Inr report \<and>
         sublist ''Unexpected error'' report"
    by blast
  from t2 have "\<exists>report. build_error_message example_env example_error = Inr report \<and>
      sublist (file_path example_error) report \<and>
      (exception_message (error_info example_error) = [] \<and> is_tag_error (error_info example_error) \<longrightarrow>
         sublist (import_mod_path example_error) report \<and>
         sublist (str_list example_env (source_tags (error_info example_error))) report \<and>
         sublist (str_list example_env (invalid_tags (error_info example_error))) report)"
    by blast
  then have f: "\<exists>report. build_error_message example_env example_error = Inr report \<and>
         sublist (file_path example_error) report \<and>
         sublist ''api.views'' report \<and>
         sublist (str_list example_env [''low'']) report \<and>
         sublist (str_list example_env [''high'']) report"
    by (simp add: x)
  have s: "exception_message (error_info second_error) \<noteq> []"
    by (simp add: x)
  from a b c d f n s x(1,3,4,5,6) example_brace_free detect_examples(1)
  show ?thesis
    by (intro conjI)
qed

end
